theory Spec2Isabelle
  imports Complex_Main "HOL-Library.Sublist"
begin

section \<open>Python values\<close>

text \<open>
  A Python \<open>str\<close> is a sequence of Unicode code points, so \<open>len\<close> counts code points:
  a string is a list of naturals.  \<open>lit\<close> embeds an ASCII literal of the source.
\<close>

type_synonym pystr = "nat list"

definition lit :: "string \<Rightarrow> pystr" where
  "lit s = map of_char s"

text \<open>
  The values that flow through the service are what \<open>json.loads\<close> and the dictionary
  literals of the source produce.  A dictionary is an association list with distinct keys,
  read with \<open>map_of\<close>.
\<close>

datatype pyval =
    PNone
  | PBool bool
  | PInt int
  | PFloat real
  | PStr pystr
  | PList "pyval list"
  | PDict "(pystr \<times> pyval) list"

type_synonym pydict = "(pystr \<times> pyval) list"

text \<open>
  An exception is given by the class among those named in an \<open>except\<close> clause of the
  source that it is an instance of (\<open>OtherException\<close> when it is an instance of none of
  them), by \<open>type(e).__name__\<close> and by \<open>str(e)\<close>.
\<close>

datatype exn_base = JSONDecodeError | TimeoutException | TwilioRestException | OtherException

datatype exn = Exn (base: exn_base) (type_name: pystr) (str_e: pystr)

fun py_type :: "pyval \<Rightarrow> string" where
  "py_type PNone = ''NoneType''"
| "py_type (PBool b) = ''bool''"
| "py_type (PInt n) = ''int''"
| "py_type (PFloat x) = ''float''"
| "py_type (PStr s) = ''str''"
| "py_type (PList xs) = ''list''"
| "py_type (PDict d) = ''dict''"

definition AttributeError :: "pyval \<Rightarrow> string \<Rightarrow> exn" where
  "AttributeError v a =
     Exn OtherException (lit ''AttributeError'')
       (lit ([CHR 39] @ py_type v @ [CHR 39] @ '' object has no attribute '' @ [CHR 39] @ a @ [CHR 39]))"

definition TypeError :: "string \<Rightarrow> exn" where
  "TypeError m = Exn OtherException (lit ''TypeError'') (lit m)"

definition UnboundLocalError :: "string \<Rightarrow> exn" where
  "UnboundLocalError x =
     Exn OtherException (lit ''UnboundLocalError'')
       (lit (''cannot access local variable '' @ [CHR 39] @ x @ [CHR 39]
             @ '' where it is not associated with a value''))"

definition dict_get :: "pydict \<Rightarrow> pystr \<Rightarrow> pyval \<Rightarrow> pyval" where
  "dict_get d k dflt = (case map_of d k of Some v \<Rightarrow> v | None \<Rightarrow> dflt)"

definition dict_has :: "pydict \<Rightarrow> pystr \<Rightarrow> bool" where
  "dict_has d k \<longleftrightarrow> map_of d k \<noteq> None"

fun truthy :: "pyval \<Rightarrow> bool" where
  "truthy PNone = False"
| "truthy (PBool b) = b"
| "truthy (PInt n) = (n \<noteq> 0)"
| "truthy (PFloat x) = (x \<noteq> 0)"
| "truthy (PStr s) = (s \<noteq> [])"
| "truthy (PList xs) = (xs \<noteq> [])"
| "truthy (PDict d) = (d \<noteq> [])"

text \<open>\<open>len(v)\<close>: defined on strings, lists and dictionaries, a \<open>TypeError\<close> otherwise.\<close>

fun py_len :: "pyval \<Rightarrow> exn + nat" where
  "py_len (PStr s) = Inr (length s)"
| "py_len (PList xs) = Inr (length xs)"
| "py_len (PDict d) = Inr (length d)"
| "py_len v = Inl (TypeError (''object of type '' @ [CHR 39] @ py_type v @ [CHR 39] @ '' has no len()''))"

text \<open>
  \<open>v[:n]\<close>: defined on strings and lists.  On a dictionary the slice is not a key (a
  \<open>TypeError\<close> for an unhashable slice up to CPython 3.11), on the other values the
  object is not subscriptable.
\<close>

fun py_slice :: "pyval \<Rightarrow> nat \<Rightarrow> exn + pyval" where
  "py_slice (PStr s) n = Inr (PStr (take n s))"
| "py_slice (PList xs) n = Inr (PList (take n xs))"
| "py_slice (PDict d) n = Inl (TypeError (''unhashable type: '' @ [CHR 39] @ ''slice'' @ [CHR 39]))"
| "py_slice v n = Inl (TypeError ([CHR 39] @ py_type v @ [CHR 39] @ '' object is not subscriptable''))"

text \<open>\<open>kw in s\<close> on strings: \<open>kw\<close> occurs in \<open>s\<close> as a contiguous substring.\<close>

fun py_in :: "pystr \<Rightarrow> pystr \<Rightarrow> bool" where
  "py_in kw [] = (kw = [])"
| "py_in kw (c # cs) = (prefix kw (c # cs) \<or> py_in kw cs)"

section \<open>The runtime and the providers\<close>

text \<open>
  The calls that leave the process: the translation provider (\<open>client.post\<close> of
  \<open>httpx\<close>), the generative model (\<open>model.generate_content\<close>) and the messaging
  provider (\<open>twilio_client.messages.create\<close>).  A request's calls are recorded in order.
\<close>

datatype part = Text pystr | Img "nat list"

datatype call =
    Post pystr pydict pydict real
  | GenerateContent "part list"
  | MessagesCreate "pystr option" pystr pystr

datatype http_response =
  Response (status_code: int) (resp_text: pystr) (resp_json: "exn + pyval")

text \<open>
  What the source takes from outside: the Unicode tables of \<open>str\<close> beyond ASCII, the
  formatting of a value that is not a string inside an f-string, \<open>json.loads\<close>,
  \<open>Image.open\<close>, and the three providers.  A provider answers as a function of the
  calls made so far in the request and of the arguments of the call, so it may answer
  one call differently from the next; its answer is a returned value or a raised
  exception.  \<open>generate_content\<close> yields \<open>response.text\<close> (\<open>None\<close> or a string).
  A \<open>response.json()\<close> is part of the response and may raise as well.
\<close>

record world =
  unicode_isspace :: "nat \<Rightarrow> bool"
  unicode_isdigit :: "nat \<Rightarrow> bool"
  unicode_lower :: "pystr \<Rightarrow> nat \<Rightarrow> pystr"
  unicode_upper :: "nat \<Rightarrow> pystr"
  format_value :: "pyval \<Rightarrow> pystr"
  round_kb :: "nat \<Rightarrow> pyval"
  json_loads :: "pystr \<Rightarrow> exn + pyval"
  Image_open :: "nat list \<Rightarrow> exn option"
  client_post :: "call list \<Rightarrow> pystr \<Rightarrow> pydict \<Rightarrow> pydict \<Rightarrow> real \<Rightarrow> exn + http_response"
  generate_content :: "call list \<Rightarrow> part list \<Rightarrow> exn + pystr option"
  messages_create :: "call list \<Rightarrow> pystr option \<Rightarrow> pystr \<Rightarrow> pystr \<Rightarrow> exn + pystr"

text \<open>The configuration read from the environment when the modules are loaded.\<close>

record config =
  SARVAM_API_KEY :: "pystr option"
  TWILIO_ENABLED :: bool
  TWILIO_WHATSAPP_NUMBER :: "pystr option"

subsection \<open>Methods of \<open>str\<close>\<close>

text \<open>
  On ASCII the methods are written out; on a code point beyond ASCII they follow the
  tables of the runtime.  \<open>str.lower\<close> maps U+03A3 by its neighbours, so its table
  takes the string and the position.
\<close>

definition isspace :: "world \<Rightarrow> nat \<Rightarrow> bool" where
  "isspace W c \<longleftrightarrow>
     (if c < 128 then (9 \<le> c \<and> c \<le> 13) \<or> (28 \<le> c \<and> c \<le> 32) else unicode_isspace W c)"


definition ascii_lower :: "nat \<Rightarrow> nat" where
  "ascii_lower c = (if 65 \<le> c \<and> c \<le> 90 then c + 32 else c)"

definition ascii_upper :: "nat \<Rightarrow> nat" where
  "ascii_upper c = (if 97 \<le> c \<and> c \<le> 122 then c - 32 else c)"

definition lower :: "world \<Rightarrow> pystr \<Rightarrow> pystr" where
  "lower W s =
     concat (map (\<lambda>i. if s ! i < 128 then [ascii_lower (s ! i)] else unicode_lower W s i)
               [0..<length s])"

definition upper :: "world \<Rightarrow> pystr \<Rightarrow> pystr" where
  "upper W s = concat (map (\<lambda>c. if c < 128 then [ascii_upper c] else unicode_upper W c) s)"

definition strip :: "world \<Rightarrow> pystr \<Rightarrow> pystr" where
  "strip W s = rev (dropWhile (isspace W) (rev (dropWhile (isspace W) s)))"


text \<open>A value inside an f-string: a string stands for itself.\<close>

fun fmt :: "world \<Rightarrow> pyval \<Rightarrow> pystr" where
  "fmt W (PStr s) = s"
| "fmt W v = format_value W v"

section \<open>The translation adapter (\<open>sarvam_translator.py\<close>)\<close>

definition SARVAM_API_URL :: pystr where
  "SARVAM_API_URL = lit ''https://api.sarvam.ai/translate''"

definition LANGUAGE_CODES :: "(pystr \<times> pystr) list" where
  "LANGUAGE_CODES =
    [(lit ''English'', lit ''en-IN''),
     ([0x939, 0x93F, 0x902, 0x926, 0x940], lit ''hi-IN''),
     ([0xBA4, 0xBAE, 0xBBF, 0xBB4, 0xBCD], lit ''ta-IN''),
     ([0xC24, 0xC46, 0xC32, 0xC41, 0xC17, 0xC41], lit ''te-IN''),
     ([0x92E, 0x930, 0x93E, 0x920, 0x940], lit ''mr-IN''),
     ([0xC95, 0xCA8, 0xCCD, 0xCA8, 0xCA1], lit ''kn-IN''),
     ([0x9AC, 0x9BE, 0x982, 0x9B2, 0x9BE], lit ''bn-IN''),
     ([0xA97, 0xAC1, 0xA9C, 0xAB0, 0xABE, 0xAA4, 0xAC0], lit ''gu-IN''),
     ([0xD2E, 0xD32, 0xD2F, 0xD3E, 0xD33, 0xD02], lit ''ml-IN''),
     ([0xA2A, 0xA70, 0xA1C, 0xA3E, 0xA2C, 0xA40], lit ''pa-IN'')]"

text \<open>\<open>SarvamTranslator.__init__\<close>: the adapter is enabled when the key is set and not empty.\<close>

definition enabled :: "config \<Rightarrow> bool" where
  "enabled C \<longleftrightarrow> (case SARVAM_API_KEY C of None \<Rightarrow> False | Some k \<Rightarrow> k \<noteq> [])"

definition get_language_code :: "pystr \<Rightarrow> pystr" where
  "get_language_code language_name =
     (case map_of LANGUAGE_CODES language_name of Some c \<Rightarrow> c | None \<Rightarrow> lit ''en-IN'')"

definition translate_headers :: "config \<Rightarrow> pydict" where
  "translate_headers C =
     [(lit ''Authorization'', PStr (lit ''Bearer '' @ (case SARVAM_API_KEY C of Some k \<Rightarrow> k | None \<Rightarrow> lit ''None''))),
      (lit ''Content-Type'', PStr (lit ''application/json''))]"

definition translate_payload :: "pyval \<Rightarrow> pystr \<Rightarrow> pystr \<Rightarrow> pydict" where
  "translate_payload text source_lang target_lang =
     [(lit ''input'', text),
      (lit ''source_language_code'', PStr source_lang),
      (lit ''target_language_code'', PStr target_lang),
      (lit ''speaker_gender'', PStr (lit ''Female'')),
      (lit ''mode'', PStr (lit ''formal'')),
      (lit ''model'', PStr (lit ''mayura:v1'')),
      (lit ''enable_preprocessing'', PBool True)]"

text \<open>
  The body of the \<open>try\<close> once the response has arrived.  On status 200 the body is
  decoded, \<open>translated_text\<close> is read with the default \<open>""\<close> and sliced for the log
  line; each of the three steps may raise.
\<close>

fun translate_200 :: "pyval \<Rightarrow> pystr \<Rightarrow> pystr \<Rightarrow> pyval \<Rightarrow> exn + pydict" where
  "translate_200 text source_lang target_lang (PDict data) =
     (let translated_text = dict_get data (lit ''translated_text'') (PStr [])
      in case py_slice translated_text 100 of
           Inl e \<Rightarrow> Inl e
         | Inr preview \<Rightarrow>
             Inr [(lit ''success'', PBool True),
                  (lit ''original_text'', text),
                  (lit ''translated_text'', translated_text),
                  (lit ''source_language'', PStr source_lang),
                  (lit ''target_language'', PStr target_lang),
                  (lit ''detected_language'', dict_get data (lit ''detected_language'') PNone),
                  (lit ''confidence'', dict_get data (lit ''confidence'') (PFloat 1))])"
| "translate_200 text source_lang target_lang data = Inl (AttributeError data ''get'')"

definition translate_response ::
  "world \<Rightarrow> pyval \<Rightarrow> pystr \<Rightarrow> pystr \<Rightarrow> http_response \<Rightarrow> exn + pydict" where
  "translate_response W text source_lang target_lang response =
     (if status_code response = 200 then
        (case resp_json response of
           Inl e \<Rightarrow> Inl e
         | Inr data \<Rightarrow> translate_200 text source_lang target_lang data)
      else
        Inr [(lit ''success'', PBool False),
             (lit ''error'', PStr (lit ''API returned status '' @ fmt W (PInt (status_code response)))),
             (lit ''original_text'', text),
             (lit ''details'', PStr (resp_text response))])"

text \<open>
  \<open>SarvamTranslator.translate\<close>.  The two log lines before the \<open>try\<close> evaluate
  \<open>len(text)\<close> and \<open>text[:100]\<close> and are outside every handler.  The call is
  recorded when the adapter posts.
\<close>

definition translate ::
  "world \<Rightarrow> config \<Rightarrow> call list \<Rightarrow> pyval \<Rightarrow> pystr \<Rightarrow> pystr \<Rightarrow> (exn + pydict) \<times> call list" where
  "translate W C h text source_lang target_lang =
     (if \<not> enabled C then
        (Inr [(lit ''success'', PBool False),
              (lit ''error'', PStr (lit ''Translation service not configured'')),
              (lit ''original_text'', text)], h)
      else case py_len text of
        Inl e \<Rightarrow> (Inl e, h)
      | Inr n \<Rightarrow>
       (case py_slice text 100 of
        Inl e \<Rightarrow> (Inl e, h)
      | Inr preview \<Rightarrow>
         (let headers = translate_headers C;
              payload = translate_payload text source_lang target_lang;
              attempt =
                (case client_post W h SARVAM_API_URL headers payload 30 of
                   Inl e \<Rightarrow> Inl e
                 | Inr response \<Rightarrow> translate_response W text source_lang target_lang response)
          in (case attempt of
                Inr result \<Rightarrow> Inr result
              | Inl e \<Rightarrow>
                  if base e = TimeoutException then
                    Inr [(lit ''success'', PBool False),
                         (lit ''error'', PStr (lit ''Translation request timed out'')),
                         (lit ''original_text'', text)]
                  else
                    Inr [(lit ''success'', PBool False),
                         (lit ''error'', PStr (str_e e)),
                         (lit ''original_text'', text)],
              h @ [Post SARVAM_API_URL headers payload 30]))))"

definition skipped :: "pyval \<Rightarrow> pydict" where
  "skipped text =
     [(lit ''success'', PBool True),
      (lit ''original_text'', text),
      (lit ''translated_text'', text),
      (lit ''source_language'', PStr (lit ''en-IN'')),
      (lit ''target_language'', PStr (lit ''en-IN'')),
      (lit ''skipped'', PBool True)]"

definition translate_to_english ::
  "world \<Rightarrow> config \<Rightarrow> call list \<Rightarrow> pyval \<Rightarrow> pystr \<Rightarrow> (exn + pydict) \<times> call list" where
  "translate_to_english W C h text source_language =
     (if source_language = lit ''English'' then (Inr (skipped text), h)
      else translate W C h text (get_language_code source_language) (lit ''en-IN''))"

definition translate_from_english ::
  "world \<Rightarrow> config \<Rightarrow> call list \<Rightarrow> pyval \<Rightarrow> pystr \<Rightarrow> (exn + pydict) \<times> call list" where
  "translate_from_english W C h text target_language =
     (if target_language = lit ''English'' then (Inr (skipped text), h)
      else translate W C h text (lit ''en-IN'') (get_language_code target_language))"

section \<open>The triage client (\<open>llm.py\<close>, \<open>prompts.py\<close>)\<close>

definition TRIAGE_PROMPT :: pystr where
  "TRIAGE_PROMPT =
     concat (map (\<lambda>l. lit l @ [10])
       [[],
        ''You are an AI-assisted medical triage system for rural India.'',
        [],
        ''Your tasks:'',
        ''1. Summarize symptoms clearly'',
        ''2. Assign risk: LOW, MODERATE, or HIGH'',
        ''3. Give conservative advice'',
        [],
        ''Rules:'',
        ''- Do NOT diagnose diseases'',
        ''- If unsure, choose MODERATE'',
        ''- Safety first'',
        [],
        ''Return STRICT JSON only:'',
        ''{'',
        ''  '' @ [CHR 0x22] @ ''risk'' @ [CHR 0x22] @ '': '' @ [CHR 0x22, CHR 0x22] @ '','',
        ''  '' @ [CHR 0x22] @ ''doctor_summary'' @ [CHR 0x22] @ '': '' @ [CHR 0x22, CHR 0x22] @ '','',
        ''  '' @ [CHR 0x22] @ ''advice'' @ [CHR 0x22] @ '': '' @ [CHR 0x22, CHR 0x22],
        ''}''])"

definition llm_prompt :: "pystr \<Rightarrow> pystr" where
  "llm_prompt symptom_text =
     [10] @ lit ''    '' @ TRIAGE_PROMPT @ [10, 10] @ lit ''    Patient Symptoms:'' @ [10]
     @ lit ''    '' @ symptom_text @ [10] @ lit ''    ''"

text \<open>
  The content sent to the model: the prompt, and the image when bytes were given and
  \<open>Image.open\<close> decodes them; a decoding failure leaves the text alone.
\<close>

definition llm_content :: "world \<Rightarrow> pystr \<Rightarrow> nat list option \<Rightarrow> part list" where
  "llm_content W symptom_text image_bytes =
     [Text (llm_prompt symptom_text)] @
     (case image_bytes of
        None \<Rightarrow> []
      | Some b \<Rightarrow>
          if b = [] then []
          else (case Image_open W b of None \<Rightarrow> [Img b] | Some e \<Rightarrow> []))"

text \<open>\<open>parsed_response.keys()\<close> needs a dictionary.\<close>

fun llm_parsed :: "pyval \<Rightarrow> exn + pydict" where
  "llm_parsed (PDict d) = Inr d"
| "llm_parsed v = Inl (AttributeError v ''keys'')"

text \<open>
  The two \<open>except\<close> clauses of \<open>call_llm\<close>.  The first one, for
  \<open>json.JSONDecodeError\<close>, logs \<open>response.text\<close>: the second argument is that
  text when the local variable \<open>response\<close> has been assigned, and \<open>None\<close> when
  \<open>generate_content\<close> itself raised, where reading the variable raises
  \<open>UnboundLocalError\<close> inside the handler.
\<close>

definition llm_except :: "exn \<Rightarrow> pystr option \<Rightarrow> exn + pydict" where
  "llm_except e response_text =
     (if base e = JSONDecodeError then
        (case response_text of
           None \<Rightarrow> Inl (UnboundLocalError ''response'')
         | Some t \<Rightarrow>
             Inr [(lit ''error'', PStr (lit ''Failed to parse AI response as JSON'')),
                  (lit ''raw_error'', PStr (str_e e)),
                  (lit ''raw_text'', PStr (take 500 t))])
      else
        Inr [(lit ''error'', PStr (lit ''Failed to fetch the details'')),
             (lit ''raw_error'', PStr (str_e e)),
             (lit ''exception_type'', PStr (type_name e))])"

definition empty_response :: pydict where
  "empty_response =
     [(lit ''error'', PStr (lit ''Empty response from AI'')),
      (lit ''raw_error'', PStr (lit ''Response text was empty or None''))]"

definition call_llm ::
  "world \<Rightarrow> call list \<Rightarrow> pystr \<Rightarrow> nat list option \<Rightarrow> (exn + pydict) \<times> call list" where
  "call_llm W h symptom_text image_bytes =
     (let content = llm_content W symptom_text image_bytes
      in ((case generate_content W h content of
             Inl e \<Rightarrow> llm_except e None
           | Inr None \<Rightarrow> Inr empty_response
           | Inr (Some t) \<Rightarrow>
               if t = [] then Inr empty_response
               else (case (case json_loads W t of
                             Inl e \<Rightarrow> Inl e
                           | Inr parsed_response \<Rightarrow> llm_parsed parsed_response) of
                       Inl e \<Rightarrow> llm_except e (Some t)
                     | Inr parsed_response \<Rightarrow> Inr parsed_response)),
          h @ [GenerateContent content]))"

section \<open>The orchestrator\<close>

subsection \<open>Shared steps\<close>

text \<open>
  An upload (\<open>image\<close> in the source, \<open>img\<close> here) is given by what
  \<open>await image.read()\<close> yields.  A failed read is logged and
  the analysis goes on without the image.
\<close>

type_synonym upload = "exn + nat list"

definition read_image :: "upload option \<Rightarrow> nat list option" where
  "read_image img =
     (case img of
        None \<Rightarrow> None
      | Some (Inl e) \<Rightarrow> None
      | Some (Inr b) \<Rightarrow> Some b)"

text \<open>The keyword scan: the phrases of the list that occur in the lower-cased text.\<close>

definition found_urgent :: "world \<Rightarrow> pystr list \<Rightarrow> pystr \<Rightarrow> pystr list" where
  "found_urgent W urgent text =
     (let symptom_lower = lower W text in filter (\<lambda>kw. py_in kw symptom_lower) urgent)"

fun py_upper :: "world \<Rightarrow> pyval \<Rightarrow> exn + pystr" where
  "py_upper W (PStr s) = Inr (upper W s)"
| "py_upper W v = Inl (AttributeError v ''upper'')"

definition rule :: pystr where
  "rule = replicate 29 0x2501"

definition incomplete_input :: pydict where
  "incomplete_input =
     [(lit ''risk'', PStr (lit ''LOW'')),
      (lit ''doctor_summary'', PStr (lit ''Insufficient symptom detail provided.'')),
      (lit ''advice'', PStr (lit ''Please add more details for better guidance.'')),
      (lit ''status'', PStr (lit ''incomplete_input''))]"

subsection \<open>The single-language pipeline (\<open>main.py\<close>)\<close>

definition urgent_keywords :: "pystr list" where
  "urgent_keywords =
     [lit ''chest pain'', lit ''breathless'', lit ''unconscious'', lit ''bleeding heavily'',
      lit ''severe headache'', lit (''can'' @ [CHR 39] @ ''t breathe''), lit ''heart attack'',
      lit ''stroke'', lit ''poisoning'', lit ''severe burn'', lit ''seizure'']"

definition valid_risks :: "pystr list" where
  "valid_risks = [lit ''LOW'', lit ''MODERATE'', lit ''HIGH'']"

definition emergency_detected :: "pystr list \<Rightarrow> pydict" where
  "emergency_detected found =
     [(lit ''risk'', PStr (lit ''HIGH'')),
      (lit ''doctor_summary'',
         PStr ([0x26A0, 0xFE0F] @ lit '' Severe symptoms detected requiring urgent attention.'')),
      (lit ''advice'',
         PStr ([0x1F6A8] @ lit '' IMMEDIATE ACTION: Seek emergency care NOW. Call 108 or visit nearest hospital immediately.'')),
      (lit ''status'', PStr (lit ''emergency_detected'')),
      (lit ''debug_keywords'', PList (map PStr found))]"

definition ai_error :: "exn \<Rightarrow> pystr \<Rightarrow> pydict" where
  "ai_error e request_id =
     [(lit ''risk'', PStr (lit ''ERROR'')),
      (lit ''doctor_summary'', PStr (lit ''System temporarily unavailable'')),
      (lit ''advice'', PStr (lit ''Please try again or consult a doctor directly.'')),
      (lit ''debug'', PStr (str_e e)),
      (lit ''status'', PStr (lit ''ai_error'')),
      (lit ''request_id'', PStr request_id)]"

definition ai_partial_failure :: "world \<Rightarrow> pydict \<Rightarrow> pystr \<Rightarrow> pydict" where
  "ai_partial_failure W result request_id =
     [(lit ''risk'', PStr (lit ''MODERATE'')),
      (lit ''doctor_summary'',
         PStr (lit ''Analysis incomplete: ''
               @ fmt W (dict_get result (lit ''error'') (PStr (lit ''Unknown error''))))),
      (lit ''advice'', PStr (lit ''Please consult a medical professional for proper evaluation.'')),
      (lit ''debug'', dict_get result (lit ''raw_error'') PNone),
      (lit ''status'', PStr (lit ''ai_partial_failure'')),
      (lit ''request_id'', PStr request_id)]"

definition triage_summary :: "world \<Rightarrow> pyval \<Rightarrow> pystr \<Rightarrow> pyval \<Rightarrow> pystr" where
  "triage_summary W doc_sum risk_level advice_text =
     strip W
       ([10] @ lit ''AI TRIAGE SUMMARY'' @ [10] @ rule @ [10]
        @ lit ''Symptoms Analysis: '' @ fmt W doc_sum @ [10, 10]
        @ lit ''Risk Level: '' @ risk_level @ [10, 10]
        @ lit ''Recommended Action:'' @ [10] @ fmt W advice_text @ [10, 10]
        @ rule @ [10]
        @ [0x2695, 0xFE0F] @ lit '' Note: This is AI-assisted triage, not a medical diagnosis.'' @ [10]
        @ lit ''For definitive care, please consult a qualified healthcare provider.'' @ [10])"

text \<open>
  Steps 5 to 8 of \<open>analyze\<close>, on the dictionary that \<open>call_llm\<close> returned.  The
  \<open>.upper()\<close> of step 6 and the two \<open>len\<close> of its log lines are outside every
  handler.
\<close>

definition analyze_result ::
  "world \<Rightarrow> pystr \<Rightarrow> pystr \<Rightarrow> upload option \<Rightarrow> nat list option \<Rightarrow> pydict \<Rightarrow> exn + pydict" where
  "analyze_result W request_id symptom_text img image_bytes result =
     (if dict_has result (lit ''error'') then Inr (ai_partial_failure W result request_id)
      else
        (let doc_sum = dict_get result (lit ''doctor_summary'') (PStr (lit ''No detailed summary available''))
         in case py_upper W (dict_get result (lit ''risk'') (PStr (lit ''MODERATE''))) of
           Inl e \<Rightarrow> Inl e
         | Inr risk_level \<Rightarrow>
        (let advice_text = dict_get result (lit ''advice'') (PStr (lit ''Please consult a medical professional.''))
         in case py_len doc_sum of
           Inl e \<Rightarrow> Inl e
         | Inr n \<Rightarrow>
        (case py_len advice_text of
           Inl e \<Rightarrow> Inl e
         | Inr m \<Rightarrow>
        (let risk_level = (if risk_level \<notin> set valid_risks then lit ''MODERATE'' else risk_level)
         in Inr [(lit ''risk'', PStr risk_level),
                 (lit ''doctor_summary'', PStr (triage_summary W doc_sum risk_level advice_text)),
                 (lit ''advice'', advice_text),
                 (lit ''status'', PStr (lit ''success'')),
                 (lit ''request_id'', PStr request_id),
                 (lit ''debug_info'',
                    PDict [(lit ''symptom_length'', PInt (int (length symptom_text))),
                           (lit ''image_provided'', PBool (img \<noteq> None)),
                           (lit ''image_size_kb'',
                              (case image_bytes of
                                 None \<Rightarrow> PInt 0
                               | Some b \<Rightarrow> if b = [] then PInt 0 else round_kb W (length b)))])])))))"

definition analyze ::
  "world \<Rightarrow> pystr \<Rightarrow> pystr \<Rightarrow> upload option \<Rightarrow> (exn + pydict) \<times> call list" where
  "analyze W request_id symptom_text img =
     (if length (strip W symptom_text) < 5 then (Inr incomplete_input, [])
      else
        (let found = found_urgent W urgent_keywords symptom_text
         in if found \<noteq> [] then (Inr (emergency_detected found), [])
            else
              (let image_bytes = read_image img
               in case call_llm W [] symptom_text image_bytes of
                    (Inl e, h) \<Rightarrow> (Inr (ai_error e request_id), h)
                  | (Inr result, h) \<Rightarrow>
                      (analyze_result W request_id symptom_text img image_bytes result, h))))"

subsection \<open>The multi-language pipeline (\<open>main_multilanguage.py\<close>)\<close>

text \<open>
  \<open>log_audit_trail\<close> only writes a log line, and the result of \<open>anonymize_data\<close>
  is bound to a variable that nothing reads: neither appears below.
\<close>

definition DATA_RETENTION_DAYS :: int where
  "DATA_RETENTION_DAYS = 90"

definition CONSENT_REQUIRED :: bool where
  "CONSENT_REQUIRED = True"

definition urgent_keywords_ml :: "pystr list" where
  "urgent_keywords_ml =
     [lit ''chest pain'', lit ''breathless'', lit ''unconscious'', lit ''bleeding heavily'',
      lit ''severe headache'', lit (''can'' @ [CHR 39] @ ''t breathe''), lit ''heart attack'',
      lit ''stroke'', lit ''poisoning'', lit ''severe burn'', lit ''seizure'', lit ''suicide'',
      lit ''overdose'']"

definition consent_required :: "pystr \<Rightarrow> pydict" where
  "consent_required request_id =
     [(lit ''risk'', PStr (lit ''ERROR'')),
      (lit ''doctor_summary'', PStr (lit ''Consent required to proceed'')),
      (lit ''advice'', PStr (lit ''Please accept the terms and conditions to use this service.'')),
      (lit ''status'', PStr (lit ''consent_required'')),
      (lit ''request_id'', PStr request_id)]"

text \<open>
  Step 3.  The working text \<open>english_symptoms\<close>: the symptom text, replaced by
  \<open>translated_text\<close> when the user language is not English and the translation reports
  success.  An exception inside the \<open>try\<close> (the translation, or the slice of the log
  line) puts the symptom text back.
\<close>

definition inbound :: "world \<Rightarrow> config \<Rightarrow> pystr \<Rightarrow> pystr \<Rightarrow> pyval \<times> call list" where
  "inbound W C symptom_text user_language =
     (if user_language \<noteq> lit ''English'' then
        (case translate_to_english W C [] (PStr symptom_text) user_language of
           (Inl e, h) \<Rightarrow> (PStr symptom_text, h)
         | (Inr translation_result, h) \<Rightarrow>
             if truthy (dict_get translation_result (lit ''success'') PNone) then
               (let english_symptoms =
                      dict_get translation_result (lit ''translated_text'') (PStr symptom_text)
                in case py_slice english_symptoms 100 of
                     Inl e \<Rightarrow> (PStr symptom_text, h)
                   | Inr preview \<Rightarrow> (english_symptoms, h))
             else (PStr symptom_text, h))
      else (PStr symptom_text, []))"

text \<open>
  One field translated back: the translation when it reports success (read with the
  given default), the field as it was otherwise.
\<close>

definition translate_field ::
  "world \<Rightarrow> config \<Rightarrow> call list \<Rightarrow> pystr \<Rightarrow> pyval \<Rightarrow> pyval \<Rightarrow> (exn + pyval) \<times> call list" where
  "translate_field W C h user_language v dflt =
     (case translate_from_english W C h v user_language of
        (Inl e, h') \<Rightarrow> (Inl e, h')
      | (Inr tr, h') \<Rightarrow>
          (Inr (if truthy (dict_get tr (lit ''success'') PNone)
                then dict_get tr (lit ''translated_text'') dflt else v), h'))"

text \<open>
  The summary and the advice translated back inside one \<open>try\<close>: an exception keeps
  what has been assigned so far and skips the rest.
\<close>

definition outbound ::
  "world \<Rightarrow> config \<Rightarrow> call list \<Rightarrow> pystr \<Rightarrow> pyval \<Rightarrow> pyval \<Rightarrow> pyval \<Rightarrow> pyval
     \<Rightarrow> (pyval \<times> pyval) \<times> call list" where
  "outbound W C h user_language summary summary_dflt advice advice_dflt =
     (if user_language \<noteq> lit ''English'' then
        (case translate_field W C h user_language summary summary_dflt of
           (Inl e, h1) \<Rightarrow> ((summary, advice), h1)
         | (Inr summary', h1) \<Rightarrow>
             (case translate_field W C h1 user_language advice advice_dflt of
                (Inl e, h2) \<Rightarrow> ((summary', advice), h2)
              | (Inr advice', h2) \<Rightarrow> ((summary', advice'), h2)))
      else ((summary, advice), h))"

definition emergency_response :: "pystr list \<Rightarrow> pyval \<Rightarrow> pyval \<Rightarrow> pydict" where
  "emergency_response found summary advice =
     [(lit ''risk'', PStr (lit ''HIGH'')),
      (lit ''doctor_summary'', summary),
      (lit ''advice'', advice),
      (lit ''status'', PStr (lit ''emergency_detected'')),
      (lit ''debug_keywords'', PList (map PStr found)),
      (lit ''emergency_contacts'',
         PDict [(lit ''ambulance'', PStr (lit ''108'')),
                (lit ''police'', PStr (lit ''100'')),
                (lit ''fire'', PStr (lit ''101''))])]"

definition emergency_summary :: pystr where
  "emergency_summary =
     [0x26A0, 0xFE0F]
     @ lit '' EMERGENCY: Severe symptoms detected requiring IMMEDIATE medical attention.''"

definition emergency_advice :: pystr where
  "emergency_advice =
     [0x1F6A8] @ lit '' CALL 108 NOW or visit nearest emergency room immediately. Do not delay.''"

definition ai_error_ml :: "pystr \<Rightarrow> pydict" where
  "ai_error_ml request_id =
     [(lit ''risk'', PStr (lit ''ERROR'')),
      (lit ''doctor_summary'', PStr (lit ''System temporarily unavailable'')),
      (lit ''advice'', PStr (lit ''Please try again or consult a doctor directly.'')),
      (lit ''status'', PStr (lit ''ai_error'')),
      (lit ''request_id'', PStr request_id)]"

definition ai_partial_failure_ml :: pydict where
  "ai_partial_failure_ml =
     [(lit ''risk'', PStr (lit ''MODERATE'')),
      (lit ''doctor_summary'', PStr (lit ''Analysis incomplete'')),
      (lit ''advice'', PStr (lit ''Please consult a medical professional.'')),
      (lit ''status'', PStr (lit ''ai_partial_failure''))]"

definition triage_summary_ml :: "world \<Rightarrow> pyval \<Rightarrow> pystr \<Rightarrow> pyval \<Rightarrow> pystr" where
  "triage_summary_ml W doc_sum risk_level advice_text =
     strip W
       ([10] @ lit ''AI TRIAGE SUMMARY'' @ [10] @ rule @ [10]
        @ fmt W doc_sum @ [10, 10]
        @ lit ''Risk Level: '' @ risk_level @ [10, 10]
        @ lit ''Recommended Action:'' @ [10] @ fmt W advice_text @ [10, 10]
        @ rule @ [10]
        @ [0x2695, 0xFE0F]
        @ lit '' Medical Disclaimer: This is AI-assisted triage, NOT a medical diagnosis.'' @ [10]
        @ lit ''Always consult a qualified healthcare provider for proper evaluation.'' @ [10, 10]
        @ [0x1F4CB]
        @ lit '' Data Privacy: Your data is processed securely and will be auto-deleted after 90 days.''
        @ [10])"

text \<open>
  Steps 7 to 9, on the dictionary that \<open>call_llm\<close> returned.  The risk is upper-cased
  and goes into the response as it is; the \<open>.upper()\<close> is outside every handler.
\<close>

definition analyze_result_ml ::
  "world \<Rightarrow> config \<Rightarrow> call list \<Rightarrow> pystr \<Rightarrow> pystr \<Rightarrow> pydict \<Rightarrow> (exn + pydict) \<times> call list" where
  "analyze_result_ml W C h request_id user_language result =
     (if dict_has result (lit ''error'') then (Inr ai_partial_failure_ml, h)
      else
        (let doc_sum = dict_get result (lit ''doctor_summary'') (PStr (lit ''No detailed summary available''))
         in case py_upper W (dict_get result (lit ''risk'') (PStr (lit ''MODERATE''))) of
           Inl e \<Rightarrow> (Inl e, h)
         | Inr risk_level \<Rightarrow>
        (let advice_text = dict_get result (lit ''advice'') (PStr (lit ''Please consult a medical professional.''))
         in case outbound W C h user_language doc_sum doc_sum advice_text advice_text of
              ((doc_sum, advice_text), h') \<Rightarrow>
                (Inr [(lit ''risk'', PStr risk_level),
                      (lit ''doctor_summary'', PStr (triage_summary_ml W doc_sum risk_level advice_text)),
                      (lit ''advice'', advice_text),
                      (lit ''status'', PStr (lit ''success'')),
                      (lit ''request_id'', PStr request_id),
                      (lit ''user_language'', PStr user_language),
                      (lit ''whatsapp_enabled'', PBool (TWILIO_ENABLED C)),
                      (lit ''translation_used'', PBool (user_language \<noteq> lit ''English'')),
                      (lit ''compliance'',
                         PDict [(lit ''data_retention_days'', PInt DATA_RETENTION_DAYS),
                                (lit ''anonymized'', PBool True),
                                (lit ''audit_logged'', PBool True)])], h'))))"

text \<open>
  Steps 4 to 9, on the working text once \<open>.lower()\<close> has accepted it as a string.
\<close>

definition triage_ml ::
  "world \<Rightarrow> config \<Rightarrow> call list \<Rightarrow> pystr \<Rightarrow> pystr \<Rightarrow> upload option \<Rightarrow> pystr
     \<Rightarrow> (exn + pydict) \<times> call list" where
  "triage_ml W C h request_id user_language img english_symptoms =
     (let found = found_urgent W urgent_keywords_ml english_symptoms
      in if found \<noteq> [] then
           (case outbound W C h user_language
                   (PStr emergency_summary) PNone (PStr emergency_advice) PNone of
              ((summary, advice), h') \<Rightarrow> (Inr (emergency_response found summary advice), h'))
         else
           (let image_bytes = read_image img
            in case call_llm W h english_symptoms image_bytes of
                 (Inl e, h') \<Rightarrow> (Inr (ai_error_ml request_id), h')
               | (Inr result, h') \<Rightarrow>
                   analyze_result_ml W C h' request_id user_language result))"

text \<open>
  \<open>analyze\<close> of \<open>main_multilanguage.py\<close>.  The working text is what the translation
  result holds under \<open>translated_text\<close>, so \<open>english_symptoms.lower()\<close> raises
  \<open>AttributeError\<close> when that is not a string; the call is outside every handler.
\<close>

definition analyze_ml ::
  "world \<Rightarrow> config \<Rightarrow> pystr \<Rightarrow> pystr \<Rightarrow> pystr \<Rightarrow> upload option \<Rightarrow> bool
     \<Rightarrow> (exn + pydict) \<times> call list" where
  "analyze_ml W C request_id symptom_text user_language img consent_given =
     (if CONSENT_REQUIRED \<and> \<not> consent_given then (Inr (consent_required request_id), [])
      else if length (strip W symptom_text) < 5 then (Inr incomplete_input, [])
      else
        (case inbound W C symptom_text user_language of
           (PStr english_symptoms, h) \<Rightarrow>
             triage_ml W C h request_id user_language img english_symptoms
         | (v, h) \<Rightarrow> (Inl (AttributeError v ''lower''), h)))"

subsection \<open>The messaging endpoint (\<open>send_whatsapp\<close> of \<open>main_multilanguage.py\<close>)\<close>




section \<open>Stub providers\<close>

text \<open>
  A world for concrete runs: no whitespace, digit or case mapping beyond ASCII, and the
  given answers of \<open>json.loads\<close>, of the translation provider and of the model.
\<close>

definition stub_world ::
  "(pystr \<Rightarrow> exn + pyval) \<Rightarrow>
   (call list \<Rightarrow> pystr \<Rightarrow> pydict \<Rightarrow> pydict \<Rightarrow> real \<Rightarrow> exn + http_response) \<Rightarrow>
   (call list \<Rightarrow> part list \<Rightarrow> exn + pystr option) \<Rightarrow> world" where
  "stub_world loads post gen =
     \<lparr> unicode_isspace = (\<lambda>c. False),
       unicode_isdigit = (\<lambda>c. False),
       unicode_lower = (\<lambda>s i. [s ! i]),
       unicode_upper = (\<lambda>c. [c]),
       format_value = (\<lambda>v. lit ''<value>''),
       round_kb = (\<lambda>n. PFloat 0),
       json_loads = loads,
       Image_open = (\<lambda>b. None),
       client_post = post,
       generate_content = gen,
       messages_create = (\<lambda>h f b t. Inr (lit ''SM0'')) \<rparr>"

definition no_json :: "pystr \<Rightarrow> exn + pyval" where
  "no_json s = Inl (Exn JSONDecodeError (lit ''JSONDecodeError'') (lit ''Expecting value''))"

definition no_model :: "call list \<Rightarrow> part list \<Rightarrow> exn + pystr option" where
  "no_model h content = Inl (Exn OtherException (lit ''ServiceUnavailable'') (lit ''503''))"

definition post_status ::
  "int \<Rightarrow> call list \<Rightarrow> pystr \<Rightarrow> pydict \<Rightarrow> pydict \<Rightarrow> real \<Rightarrow> exn + http_response" where
  "post_status code h url headers payload t =
     Inr (Response code (lit ''upstream error'') (Inl (Exn JSONDecodeError (lit ''JSONDecodeError'') [])))"


definition loads_as :: "pyval \<Rightarrow> pystr \<Rightarrow> exn + pyval" where
  "loads_as v s = Inr v"

definition model_says :: "pystr \<Rightarrow> call list \<Rightarrow> part list \<Rightarrow> exn + pystr option" where
  "model_says t h content = Inr (Some t)"

definition model_raises :: "exn \<Rightarrow> call list \<Rightarrow> part list \<Rightarrow> exn + pystr option" where
  "model_raises e h content = Inl e"

definition post_json ::
  "pyval \<Rightarrow> call list \<Rightarrow> pystr \<Rightarrow> pydict \<Rightarrow> pydict \<Rightarrow> real \<Rightarrow> exn + http_response" where
  "post_json v h url headers payload t = Inr (Response 200 [] (Inr v))"

text \<open>The provider that hands the input text back as the translation.\<close>

definition post_echo ::
  "call list \<Rightarrow> pystr \<Rightarrow> pydict \<Rightarrow> pydict \<Rightarrow> real \<Rightarrow> exn + http_response" where
  "post_echo h url headers payload t =
     Inr (Response 200 []
       (Inr (PDict [(lit ''translated_text'', dict_get payload (lit ''input'') PNone)])))"

definition hindi :: pystr where
  "hindi = [0x939, 0x93F, 0x902, 0x926, 0x940]"

text \<open>Answers of the model after \<open>json.loads\<close>.\<close>

definition null_risk :: pyval where
  "null_risk =
     PDict [(lit ''risk'', PNone), (lit ''doctor_summary'', PStr (lit ''Fever'')),
            (lit ''advice'', PStr (lit ''Rest''))]"

definition unknown_risk :: pyval where
  "unknown_risk =
     PDict [(lit ''risk'', PStr (lit ''unknown'')), (lit ''doctor_summary'', PStr (lit ''Fever'')),
            (lit ''advice'', PStr (lit ''Rest''))]"

definition low_risk :: pyval where
  "low_risk =
     PDict [(lit ''risk'', PStr (lit ''LOW'')), (lit ''doctor_summary'', PStr (lit ''Fever'')),
            (lit ''advice'', PStr (lit ''Rest''))]"

text \<open>The translation provider rewording the sentence it was given.\<close>

definition chest_translation :: pyval where
  "chest_translation = PDict [(lit ''translated_text'', PStr (lit ''I have pain in my chest''))]"

definition with_key :: config where
  "with_key = \<lparr> SARVAM_API_KEY = Some (lit ''sk_test''), TWILIO_ENABLED = True,
                 TWILIO_WHATSAPP_NUMBER = Some (lit ''whatsapp:+14155238886'') \<rparr>"

definition without_key :: config where
  "without_key = \<lparr> SARVAM_API_KEY = None, TWILIO_ENABLED = False, TWILIO_WHATSAPP_NUMBER = None \<rparr>"

section \<open>Predicates on results\<close>

text \<open>The fields of a response that the properties speak about, and the calls made.\<close>

definition risk_of :: "(exn + pydict) \<times> call list \<Rightarrow> pyval option" where
  "risk_of r = (case fst r of Inl e \<Rightarrow> None | Inr response \<Rightarrow> map_of response (lit ''risk''))"

definition status_of :: "(exn + pydict) \<times> call list \<Rightarrow> pyval option" where
  "status_of r = (case fst r of Inl e \<Rightarrow> None | Inr response \<Rightarrow> map_of response (lit ''status''))"

fun is_model_call :: "call \<Rightarrow> bool" where
  "is_model_call (GenerateContent content) = True"
| "is_model_call c = False"

definition model_calls :: "(exn + pydict) \<times> call list \<Rightarrow> call list" where
  "model_calls r = filter is_model_call (snd r)"


text \<open>
  The inbound translation failed: it raised, or its result does not report success.
\<close>

definition translation_failed :: "exn + pydict \<Rightarrow> bool" where
  "translation_failed r =
     (case r of Inl e \<Rightarrow> True | Inr d \<Rightarrow> \<not> truthy (dict_get d (lit ''success'') PNone))"

text \<open>
  The translation provider hands back, as \<open>translated_text\<close>, the input of every
  payload the adapter sends.
\<close>

definition echo_translation :: "world \<Rightarrow> bool" where
  "echo_translation W \<longleftrightarrow>
     (\<forall>h url headers text source_lang target_lang t. \<exists>body d.
        client_post W h url headers (translate_payload text source_lang target_lang) t
          = Inr (Response 200 body (Inr (PDict d))) \<and>
        map_of d (lit ''translated_text'') = Some text)"

text \<open>The model answers by the content it is sent, whatever was called before.\<close>

definition same_model :: "world \<Rightarrow> bool" where
  "same_model W \<longleftrightarrow> (\<forall>h content. generate_content W h content = generate_content W [] content)"

text \<open>
  An answer of the model that steps 6 and 7 of \<open>main.py\<close> take without raising and
  without coercion: the risk is a string (or absent) whose upper-case form is a valid
  risk, and the summary and the advice have a length.
\<close>

fun is_sized :: "pyval \<Rightarrow> bool" where
  "is_sized (PStr s) = True"
| "is_sized (PList xs) = True"
| "is_sized (PDict d) = True"
| "is_sized v = False"

definition usable :: "world \<Rightarrow> pydict \<Rightarrow> bool" where
  "usable W result \<longleftrightarrow>
     (case dict_get result (lit ''risk'') (PStr (lit ''MODERATE'')) of
        PStr r \<Rightarrow> upper W r \<in> set valid_risks
      | v \<Rightarrow> False) \<and>
     is_sized (dict_get result (lit ''doctor_summary'') (PStr (lit ''No detailed summary available''))) \<and>
     is_sized (dict_get result (lit ''advice'') (PStr (lit ''Please consult a medical professional.'')))"

section \<open>Basic facts\<close>

lemma lit_eq_iff [simp]: "lit a = lit b \<longleftrightarrow> a = b"
  unfolding lit_def by (simp add: inj_map_eq_map inj_on_def)

lemma lit_Nil_iff [simp]: "lit a = [] \<longleftrightarrow> a = []" "[] = lit a \<longleftrightarrow> a = []"
  unfolding lit_def by auto

lemma length_lit [simp]: "length (lit a) = length a"
  unfolding lit_def by simp

lemma py_in_sublist: "py_in kw s \<longleftrightarrow> sublist kw s"
  by (induction s) (auto simp: sublist_Cons_right)

text \<open>
  Lower-casing and matching: an occurrence of a phrase in the text, in any case of its ASCII
  letters, is an occurrence of the lower-case phrase in the lower-cased text.
\<close>

lemma concat_singletons: "concat (map (\<lambda>i. [g i]) xs) = map g xs"
  by (induction xs) simp_all

lemma lower_segment:
  assumes "\<forall>c\<in>set seg. c < 128"
  shows "\<exists>a b. lower W (ps @ seg @ ss) = a @ map ascii_lower seg @ b"
proof -
  let ?s = "ps @ seg @ ss"
  let ?f = "\<lambda>i. if ?s ! i < 128 then [ascii_lower (?s ! i)] else unicode_lower W ?s i"
  let ?lp = "length ps" and ?ls = "length seg"
  have s1: "[0..<?lp + (?ls + length ss)] = [0..<?lp] @ [?lp..<?lp + (?ls + length ss)]"
    using upt_add_eq_append [of 0 ?lp "?ls + length ss"] by simp
  have s2: "[?lp..<?lp + (?ls + length ss)]
              = [?lp..<?lp + ?ls] @ [?lp + ?ls..<?lp + ?ls + length ss]"
    using upt_add_eq_append [of ?lp "?lp + ?ls" "length ss"] by (simp add: add.assoc)
  have split: "[0..<length ?s] = [0..<?lp] @ [?lp..<?lp + ?ls] @ [?lp + ?ls..<?lp + ?ls + length ss]"
    using s1 s2 by simp
  have mid: "map ?f [?lp..<?lp + ?ls] = map (\<lambda>i. [ascii_lower (seg ! (i - ?lp))]) [?lp..<?lp + ?ls]"
  proof (rule map_cong [OF refl])
    fix i assume "i \<in> set [?lp..<?lp + ?ls]"
    then have i: "?lp \<le> i" "i - ?lp < ?ls" by auto
    then have n: "?s ! i = seg ! (i - ?lp)"
      by (simp add: nth_append)
    from i assms have "seg ! (i - ?lp) < 128" by simp
    with n show "?f i = [ascii_lower (seg ! (i - ?lp))]" by simp
  qed
  have shift: "[?lp..<?lp + ?ls] = map (\<lambda>i. i + ?lp) [0..<?ls]"
    by (simp add: map_add_upt add.commute)
  have "concat (map ?f [?lp..<?lp + ?ls]) = map (\<lambda>i. ascii_lower (seg ! (i - ?lp))) [?lp..<?lp + ?ls]"
    by (simp only: mid concat_singletons)
  also have "\<dots> = map (\<lambda>i. ascii_lower (seg ! i)) [0..<?ls]"
    by (simp only: shift map_map o_def) simp
  also have "\<dots> = map ascii_lower (map (nth seg) [0..<?ls])"
    by simp
  also have "\<dots> = map ascii_lower seg"
    by (simp only: map_nth)
  finally have m: "concat (map ?f [?lp..<?lp + ?ls]) = map ascii_lower seg" .
  have "lower W ?s = concat (map ?f [0..<?lp]) @ map ascii_lower seg
          @ concat (map ?f [?lp + ?ls..<?lp + ?ls + length ss])"
    unfolding lower_def by (simp only: split map_append concat_append m)
  then show ?thesis by blast
qed

lemma case_insensitive_match:
  assumes "\<forall>c\<in>set seg. c < 128" and "map ascii_lower seg = kw"
  shows "py_in kw (lower W (ps @ seg @ ss))"
proof -
  obtain a b where "lower W (ps @ seg @ ss) = a @ map ascii_lower seg @ b"
    using lower_segment [OF assms(1)] by blast
  with assms(2) show ?thesis
    by (auto simp: py_in_sublist sublist_def)
qed

section \<open>The translation adapter\<close>

text \<open>
  Claim C9.  For every input text, \<open>translate_to_english\<close> with the source language
  \<open>English\<close> and \<open>translate_from_english\<close> with the target language \<open>English\<close> make
  no network call (the recorded calls are unchanged) and return a result with
  \<open>success = True\<close>, \<open>translated_text\<close> equal to the input text, and \<open>skipped = True\<close>.
\<close>

theorem translate_english_is_passthrough:
  "\<exists>result.
     translate_to_english W C h (PStr text) (lit ''English'') = (Inr result, h) \<and>
     translate_from_english W C h (PStr text) (lit ''English'') = (Inr result, h) \<and>
     map_of result (lit ''success'') = Some (PBool True) \<and>
     map_of result (lit ''translated_text'') = Some (PStr text) \<and>
     map_of result (lit ''skipped'') = Some (PBool True)"
  by (simp add: translate_to_english_def translate_from_english_def skipped_def)



section \<open>Stages of the pipelines\<close>

lemma found_urgent_empty_iff:
  "found_urgent W urgent text = [] \<longleftrightarrow> (\<forall>kw\<in>set urgent. \<not> py_in kw (lower W text))"
  by (simp add: found_urgent_def Let_def filter_empty_conv)

lemma call_llm_fst:
  "fst (call_llm W h symptom_text image_bytes) =
     (case generate_content W h (llm_content W symptom_text image_bytes) of
        Inl e \<Rightarrow> llm_except e None
      | Inr None \<Rightarrow> Inr empty_response
      | Inr (Some t) \<Rightarrow>
          if t = [] then Inr empty_response
          else (case json_loads W t of
                  Inl e \<Rightarrow> llm_except e (Some t)
                | Inr parsed \<Rightarrow>
                    (case llm_parsed parsed of
                       Inl e \<Rightarrow> llm_except e (Some t)
                     | Inr d \<Rightarrow> Inr d)))"
  by (simp add: call_llm_def Let_def split: sum.splits option.splits)

lemma call_llm_snd:
  "snd (call_llm W h symptom_text image_bytes) =
     h @ [GenerateContent (llm_content W symptom_text image_bytes)]"
  by (simp add: call_llm_def Let_def)

lemma analyze_after_llm:
  assumes "5 \<le> length (strip W symptom_text)"
    and "found_urgent W urgent_keywords symptom_text = []"
    and "fst (call_llm W [] symptom_text (read_image img)) = Inr result"
  shows "fst (analyze W request_id symptom_text img) =
           analyze_result W request_id symptom_text img (read_image img) result"
  using assms
  by (cases "call_llm W [] symptom_text (read_image img)") (simp add: analyze_def Let_def)

lemma analyze_ml_english:
  assumes "consent_given" "5 \<le> length (strip W symptom_text)"
  shows "analyze_ml W C request_id symptom_text (lit ''English'') img consent_given =
           triage_ml W C [] request_id (lit ''English'') img symptom_text"
  using assms by (simp add: analyze_ml_def inbound_def)

lemma triage_ml_after_llm:
  assumes "found_urgent W urgent_keywords_ml text = []"
    and "call_llm W h text (read_image img) = (Inr result, h')"
  shows "triage_ml W C h request_id user_language img text =
           analyze_result_ml W C h' request_id user_language result"
  using assms by (simp add: triage_ml_def Let_def)

subsection \<open>Concrete texts\<close>

lemma hi_length: "length (strip W (lit ''hi'')) = 2"
  by code_simp

lemma mild_fever_length: "length (strip W (lit ''mild fever'')) = 10"
  by code_simp

lemma mild_fever_not_urgent: "found_urgent W urgent_keywords (lit ''mild fever'') = []"
  by code_simp

lemma mild_fever_not_urgent_ml: "found_urgent W urgent_keywords_ml (lit ''mild fever'') = []"
  by code_simp

lemma upper_unknown: "upper W (lit ''unknown'') = lit ''UNKNOWN''"
  by code_simp

lemma upper_LOW: "upper W (lit ''LOW'') = lit ''LOW''"
  by code_simp

section \<open>Input validation\<close>

text \<open>
  Claim C2, as amended.  For every symptom text whose trimmed length is less than 5, with
  consent granted where it is required, both pipelines return the \<open>incomplete_input\<close>
  response (risk \<open>LOW\<close>, status \<open>incomplete_input\<close>) and no provider is called: the
  recorded calls are empty.
\<close>

theorem short_text_is_incomplete:
  assumes "length (strip W symptom_text) < 5" and "CONSENT_REQUIRED \<longrightarrow> consent_given"
  shows "analyze W request_id symptom_text img = (Inr incomplete_input, []) \<and>
         analyze_ml W C request_id symptom_text user_language img consent_given
           = (Inr incomplete_input, []) \<and>
         map_of incomplete_input (lit ''risk'') = Some (PStr (lit ''LOW'')) \<and>
         map_of incomplete_input (lit ''status'') = Some (PStr (lit ''incomplete_input''))"
  using assms by (auto simp: analyze_def analyze_ml_def incomplete_input_def)

theorem short_text_is_incomplete_witness:
  "analyze (stub_world no_json post_echo no_model) (lit ''r1'') (lit ''hi'') None
     = (Inr incomplete_input, []) \<and>
   analyze_ml (stub_world no_json post_echo no_model) without_key (lit ''r1'') (lit ''hi'')
       (lit ''English'') None True
     = (Inr incomplete_input, [])"
  using short_text_is_incomplete [of "stub_world no_json post_echo no_model" "lit ''hi''" True
      "lit ''r1''" None without_key "lit ''English''"]
  by (simp add: hi_length)

text \<open>
  The claim as stated fails in the multi-language pipeline: the consent gate comes
  before the length check, so the text \<open>hi\<close> without consent gets risk \<open>ERROR\<close> and
  status \<open>consent_required\<close>.
\<close>

theorem short_text_without_consent_counterexample:
  "length (strip (stub_world no_json post_echo no_model) (lit ''hi'')) < 5 \<and>
   risk_of (analyze_ml (stub_world no_json post_echo no_model) without_key (lit ''r1'') (lit ''hi'')
              (lit ''English'') None False) = Some (PStr (lit ''ERROR'')) \<and>
   status_of (analyze_ml (stub_world no_json post_echo no_model) without_key (lit ''r1'') (lit ''hi'')
              (lit ''English'') None False) = Some (PStr (lit ''consent_required''))"
  by (simp add: hi_length analyze_ml_def CONSENT_REQUIRED_def risk_of_def status_of_def
        consent_required_def)

section \<open>Values of the model that are not strings\<close>

text \<open>
  Claim C3 at a failing input.  The model answers
  \<open>{"risk": null, "doctor_summary": "Fever", "advice": "Rest"}\<close> for the text
  \<open>mild fever\<close>: \<open>call_llm\<close> returns the dictionary, and
  \<open>result.get('risk', 'MODERATE').upper()\<close> raises \<open>AttributeError\<close> outside every
  handler, in both pipelines, so the endpoint raises instead of returning a response.
\<close>

theorem non_string_risk_raises:
  "fst (analyze (stub_world (loads_as null_risk) post_echo (model_says (lit ''{}''))) (lit ''r1'')
          (lit ''mild fever'') None) = Inl (AttributeError PNone ''upper'') \<and>
   fst (analyze_ml (stub_world (loads_as null_risk) post_echo (model_says (lit ''{}''))) with_key
          (lit ''r1'') (lit ''mild fever'') (lit ''English'') None True)
     = Inl (AttributeError PNone ''upper'')"
proof -
  let ?W = "stub_world (loads_as null_risk) post_echo (model_says (lit ''{}''))"
  let ?d = "[(lit ''risk'', PNone), (lit ''doctor_summary'', PStr (lit ''Fever'')),
             (lit ''advice'', PStr (lit ''Rest''))]"
  have llm: "\<And>h. fst (call_llm ?W h (lit ''mild fever'') (read_image None)) = Inr ?d"
    by (simp add: call_llm_fst stub_world_def model_says_def loads_as_def null_risk_def)
  have single: "fst (analyze ?W (lit ''r1'') (lit ''mild fever'') None)
      = analyze_result ?W (lit ''r1'') (lit ''mild fever'') None (read_image None) ?d"
    by (rule analyze_after_llm) (simp_all add: mild_fever_length mild_fever_not_urgent llm)
  have r1: "analyze_result ?W (lit ''r1'') (lit ''mild fever'') None (read_image None) ?d
      = Inl (AttributeError PNone ''upper'')"
    by (simp add: analyze_result_def dict_has_def dict_get_def)
  obtain h' where c: "call_llm ?W [] (lit ''mild fever'') (read_image None) = (Inr ?d, h')"
    using llm [of "[]"] by (cases "call_llm ?W [] (lit ''mild fever'') (read_image None)") simp
  have multi: "analyze_ml ?W with_key (lit ''r1'') (lit ''mild fever'') (lit ''English'') None True
      = analyze_result_ml ?W with_key h' (lit ''r1'') (lit ''English'') ?d"
    by (simp add: analyze_ml_english mild_fever_length
          triage_ml_after_llm [OF mild_fever_not_urgent_ml c])
  have r2: "fst (analyze_result_ml ?W with_key h' (lit ''r1'') (lit ''English'') ?d)
      = Inl (AttributeError PNone ''upper'')"
    by (simp add: analyze_result_ml_def dict_has_def dict_get_def)
  show ?thesis using single r1 multi r2 by simp
qed

subsection \<open>After the model has answered\<close>

lemma outbound_english:
  "outbound W C h (lit ''English'') summary sd advice ad = ((summary, advice), h)"
  by (simp add: outbound_def)

lemma analyze_result_ml_success:
  assumes "\<not> dict_has result (lit ''error'')"
    and "py_upper W (dict_get result (lit ''risk'') (PStr (lit ''MODERATE''))) = Inr r"
  shows "risk_of (analyze_result_ml W C h request_id user_language result) = Some (PStr r) \<and>
         status_of (analyze_result_ml W C h request_id user_language result)
           = Some (PStr (lit ''success''))"
  using assms
  by (simp add: analyze_result_ml_def Let_def risk_of_def status_of_def split: prod.splits)

lemma analyze_result_success:
  assumes "\<not> dict_has result (lit ''error'')"
    and "py_upper W (dict_get result (lit ''risk'') (PStr (lit ''MODERATE''))) = Inr r"
    and "py_len (dict_get result (lit ''doctor_summary'') (PStr (lit ''No detailed summary available''))) = Inr n"
    and "py_len (dict_get result (lit ''advice'') (PStr (lit ''Please consult a medical professional.''))) = Inr m"
  shows "\<exists>response. analyze_result W request_id symptom_text img image_bytes result = Inr response \<and>
           map_of response (lit ''risk'')
             = Some (PStr (if r \<in> set valid_risks then r else lit ''MODERATE'')) \<and>
           map_of response (lit ''status'') = Some (PStr (lit ''success''))"
  using assms by (simp add: analyze_result_def Let_def)

subsection \<open>More concrete texts\<close>




section \<open>Risk values\<close>

text \<open>
  The single-language pipeline: every response it returns carries one of the four risk
  values.
\<close>

lemma analyze_risk_enum:
  "fst (analyze W request_id symptom_text img) = Inr response \<Longrightarrow>
     \<exists>risk. map_of response (lit ''risk'') = Some (PStr risk) \<and>
       risk \<in> {lit ''LOW'', lit ''MODERATE'', lit ''HIGH'', lit ''ERROR''}"
  by (cases "call_llm W [] symptom_text (read_image img)")
     (auto simp: analyze_def Let_def incomplete_input_def emergency_detected_def ai_error_def
        analyze_result_def ai_partial_failure_def valid_risks_def
        split: if_splits sum.splits)

text \<open>
  Claim C4 at a failing input.  The model answers
  \<open>{"risk": "unknown", "doctor_summary": "Fever", "advice": "Rest"}\<close> for the text
  \<open>mild fever\<close>.  The multi-language pipeline upper-cases the risk and returns it as it
  is, \<open>UNKNOWN\<close>, which is none of \<open>LOW\<close>, \<open>MODERATE\<close>, \<open>HIGH\<close>, \<open>ERROR\<close>;
  the single-language pipeline checks it against \<open>valid_risks\<close> and returns
  \<open>MODERATE\<close>.
\<close>

theorem unrecognised_risk_not_coerced:
  "risk_of (analyze_ml (stub_world (loads_as unknown_risk) post_echo (model_says (lit ''{}''))) with_key
          (lit ''r1'') (lit ''mild fever'') (lit ''English'') None True)
     = Some (PStr (lit ''UNKNOWN'')) \<and>
   risk_of (analyze (stub_world (loads_as unknown_risk) post_echo (model_says (lit ''{}''))) (lit ''r1'')
          (lit ''mild fever'') None) = Some (PStr (lit ''MODERATE''))"
proof -
  let ?W = "stub_world (loads_as unknown_risk) post_echo (model_says (lit ''{}''))"
  let ?d = "[(lit ''risk'', PStr (lit ''unknown'')), (lit ''doctor_summary'', PStr (lit ''Fever'')),
             (lit ''advice'', PStr (lit ''Rest''))]"
  have llm: "\<And>h. fst (call_llm ?W h (lit ''mild fever'') (read_image None)) = Inr ?d"
    by (simp add: call_llm_fst stub_world_def model_says_def loads_as_def unknown_risk_def)
  have noerr: "\<not> dict_has ?d (lit ''error'')"
    by (simp add: dict_has_def)
  have up: "py_upper ?W (dict_get ?d (lit ''risk'') (PStr (lit ''MODERATE''))) = Inr (lit ''UNKNOWN'')"
    by (simp add: dict_get_def upper_unknown)
  obtain h' where c: "call_llm ?W [] (lit ''mild fever'') (read_image None) = (Inr ?d, h')"
    using llm [of "[]"] by (cases "call_llm ?W [] (lit ''mild fever'') (read_image None)") simp
  have multi: "analyze_ml ?W with_key (lit ''r1'') (lit ''mild fever'') (lit ''English'') None True
      = analyze_result_ml ?W with_key h' (lit ''r1'') (lit ''English'') ?d"
    by (simp add: analyze_ml_english mild_fever_length
          triage_ml_after_llm [OF mild_fever_not_urgent_ml c])
  have m: "risk_of (analyze_ml ?W with_key (lit ''r1'') (lit ''mild fever'') (lit ''English'') None True)
      = Some (PStr (lit ''UNKNOWN''))"
    using analyze_result_ml_success [OF noerr up] multi by simp
  have single: "fst (analyze ?W (lit ''r1'') (lit ''mild fever'') None)
      = analyze_result ?W (lit ''r1'') (lit ''mild fever'') None (read_image None) ?d"
    by (rule analyze_after_llm) (simp_all add: mild_fever_length mild_fever_not_urgent llm)
  have "\<exists>response. analyze_result ?W (lit ''r1'') (lit ''mild fever'') None (read_image None) ?d
           = Inr response \<and>
         map_of response (lit ''risk'')
           = Some (PStr (if lit ''UNKNOWN'' \<in> set valid_risks then lit ''UNKNOWN'' else lit ''MODERATE''))
         \<and> map_of response (lit ''status'') = Some (PStr (lit ''success''))"
    by (rule analyze_result_success [OF noerr up]) (simp_all add: dict_get_def)
  then have s: "risk_of (analyze ?W (lit ''r1'') (lit ''mild fever'') None) = Some (PStr (lit ''MODERATE''))"
    using single by (auto simp: risk_of_def valid_risks_def)
  show ?thesis using m s by simp
qed

section \<open>The triage client\<close>

text \<open>
  What \<open>call_llm\<close> returns: the error dictionary with the class name and the message
  for an exception of the provider that is not a \<open>JSONDecodeError\<close>, the empty-response
  dictionary for an empty or missing text, the parse-failure dictionary with the first
  500 characters of the text when \<open>json.loads\<close> rejects it, and always a dictionary
  unless the provider raises a \<open>JSONDecodeError\<close>.
\<close>

lemma call_llm_outcomes:
  "(\<forall>e. generate_content W h (llm_content W symptom_text image_bytes) = Inl e \<longrightarrow>
        base e \<noteq> JSONDecodeError \<longrightarrow>
        fst (call_llm W h symptom_text image_bytes)
          = Inr [(lit ''error'', PStr (lit ''Failed to fetch the details'')),
                 (lit ''raw_error'', PStr (str_e e)),
                 (lit ''exception_type'', PStr (type_name e))]) \<and>
   (generate_content W h (llm_content W symptom_text image_bytes) = Inr None \<or>
    generate_content W h (llm_content W symptom_text image_bytes) = Inr (Some []) \<longrightarrow>
        fst (call_llm W h symptom_text image_bytes) = Inr empty_response) \<and>
   (\<forall>t e. generate_content W h (llm_content W symptom_text image_bytes) = Inr (Some t) \<longrightarrow>
        t \<noteq> [] \<longrightarrow> json_loads W t = Inl e \<longrightarrow> base e = JSONDecodeError \<longrightarrow>
        fst (call_llm W h symptom_text image_bytes)
          = Inr [(lit ''error'', PStr (lit ''Failed to parse AI response as JSON'')),
                 (lit ''raw_error'', PStr (str_e e)),
                 (lit ''raw_text'', PStr (take 500 t))]) \<and>
   ((\<forall>e. generate_content W h (llm_content W symptom_text image_bytes) = Inl e \<longrightarrow>
        base e \<noteq> JSONDecodeError) \<longrightarrow>
        (\<exists>d. fst (call_llm W h symptom_text image_bytes) = Inr d))"
  by (auto simp: call_llm_fst llm_except_def split: sum.splits option.splits)

text \<open>
  Claim C8 at a failing input.  \<open>generate_content\<close> raises an instance of
  \<open>json.JSONDecodeError\<close>: the first \<open>except\<close> clause takes it and formats
  \<open>response.text\<close> for its log line while \<open>response\<close> has not been assigned, so
  \<open>UnboundLocalError\<close> leaves \<open>call_llm\<close>.
\<close>

theorem provider_json_error_escapes:
  "fst (call_llm
         (stub_world no_json post_echo
            (model_raises (Exn JSONDecodeError (lit ''JSONDecodeError'') (lit ''Expecting value''))))
         [] (lit ''mild fever'') None)
     = Inl (UnboundLocalError ''response'')"
  by (simp add: call_llm_fst stub_world_def model_raises_def llm_except_def)

section \<open>The messaging endpoint\<close>






section \<open>Calls of the model\<close>

text \<open>The translation adapter and the stages built on it never call the model.\<close>

lemma translate_model_calls:
  "filter is_model_call (snd (translate W C h v s t)) = filter is_model_call h"
  by (simp add: translate_def Let_def split: sum.splits)

lemma translate_to_english_model_calls:
  "filter is_model_call (snd (translate_to_english W C h v l)) = filter is_model_call h"
  by (simp add: translate_to_english_def translate_model_calls)

lemma translate_from_english_model_calls:
  "filter is_model_call (snd (translate_from_english W C h v l)) = filter is_model_call h"
  by (simp add: translate_from_english_def translate_model_calls)

lemma translate_field_model_calls:
  "filter is_model_call (snd (translate_field W C h l v d)) = filter is_model_call h"
  using translate_from_english_model_calls [of W C h v l]
  by (cases "translate_from_english W C h v l") (auto simp: translate_field_def split: sum.splits)

lemma outbound_model_calls:
  "filter is_model_call (snd (outbound W C h l a ad b bd)) = filter is_model_call h"
proof (cases "l = lit ''English''")
  case True
  then show ?thesis by (simp add: outbound_def)
next
  case False
  obtain r1 h1 where f1: "translate_field W C h l a ad = (r1, h1)"
    by (cases "translate_field W C h l a ad")
  have m1: "filter is_model_call h1 = filter is_model_call h"
    using translate_field_model_calls [of W C h l a ad] f1 by simp
  show ?thesis
  proof (cases r1)
    case (Inl e)
    with False f1 m1 show ?thesis by (simp add: outbound_def)
  next
    case (Inr a')
    obtain r2 h2 where f2: "translate_field W C h1 l b bd = (r2, h2)"
      by (cases "translate_field W C h1 l b bd")
    have m2: "filter is_model_call h2 = filter is_model_call h1"
      using translate_field_model_calls [of W C h1 l b bd] f2 by simp
    from False f1 f2 m1 m2 Inr show ?thesis
      by (cases r2) (simp_all add: outbound_def)
  qed
qed

lemma inbound_model_calls:
  "filter is_model_call (snd (inbound W C symptom_text user_language)) = []"
  using translate_to_english_model_calls [of W C "[]" "PStr symptom_text" user_language]
  by (cases "translate_to_english W C [] (PStr symptom_text) user_language")
     (auto simp: inbound_def Let_def split: sum.splits)

section \<open>The working text\<close>

lemma inbound_english:
  "inbound W C symptom_text (lit ''English'') = (PStr symptom_text, [])"
  by (simp add: inbound_def)

lemma inbound_failed:
  assumes "user_language \<noteq> lit ''English''"
    and "translation_failed (fst (translate_to_english W C [] (PStr symptom_text) user_language))"
  shows "inbound W C symptom_text user_language
           = (PStr symptom_text, snd (translate_to_english W C [] (PStr symptom_text) user_language))"
  using assms
  by (cases "translate_to_english W C [] (PStr symptom_text) user_language")
     (auto simp: inbound_def translation_failed_def split: sum.splits)

text \<open>The failures of the adapter are failures in this sense: no key, a raised
  exception of the post, a status other than 200.\<close>

lemma translation_failed_cases:
  assumes "user_language \<noteq> lit ''English''"
    and "\<not> enabled C \<or>
         (\<exists>e. client_post W [] SARVAM_API_URL (translate_headers C)
                 (translate_payload (PStr symptom_text) (get_language_code user_language) (lit ''en-IN'')) 30
               = Inl e) \<or>
         (\<exists>response. client_post W [] SARVAM_API_URL (translate_headers C)
                 (translate_payload (PStr symptom_text) (get_language_code user_language) (lit ''en-IN'')) 30
               = Inr response \<and> status_code response \<noteq> 200)"
  shows "translation_failed (fst (translate_to_english W C [] (PStr symptom_text) user_language))"
  using assms
  by (auto simp: translation_failed_def translate_to_english_def translate_def translate_response_def
        Let_def dict_get_def)

lemma analyze_ml_working:
  assumes "CONSENT_REQUIRED \<longrightarrow> consent_given" "5 \<le> length (strip W symptom_text)"
    and "inbound W C symptom_text user_language = (PStr working, h)"
  shows "analyze_ml W C request_id symptom_text user_language img consent_given
           = triage_ml W C h request_id user_language img working"
  using assms by (auto simp: analyze_ml_def)

lemma analyze_emergency:
  assumes "5 \<le> length (strip W symptom_text)"
    and "found_urgent W urgent_keywords symptom_text \<noteq> []"
  shows "analyze W request_id symptom_text img
           = (Inr (emergency_detected (found_urgent W urgent_keywords symptom_text)), [])"
  using assms by (simp add: analyze_def Let_def)

lemma triage_ml_emergency:
  assumes "found_urgent W urgent_keywords_ml text \<noteq> []"
  shows "risk_of (triage_ml W C h request_id user_language img text) = Some (PStr (lit ''HIGH'')) \<and>
         status_of (triage_ml W C h request_id user_language img text)
           = Some (PStr (lit ''emergency_detected'')) \<and>
         model_calls (triage_ml W C h request_id user_language img text) = filter is_model_call h"
  using assms
    outbound_model_calls [of W C h user_language "PStr emergency_summary" PNone
      "PStr emergency_advice" PNone]
  by (cases "outbound W C h user_language (PStr emergency_summary) PNone (PStr emergency_advice) PNone")
     (auto simp: triage_ml_def Let_def risk_of_def status_of_def model_calls_def
        emergency_response_def)

lemma triage_ml_model_calls:
  assumes "found_urgent W urgent_keywords_ml text = []"
  shows "model_calls (triage_ml W C h request_id user_language img text)
           = filter is_model_call h @ [GenerateContent (llm_content W text (read_image img))]"
proof -
  obtain r h' where c: "call_llm W h text (read_image img) = (r, h')"
    by (cases "call_llm W h text (read_image img)")
  have h': "h' = h @ [GenerateContent (llm_content W text (read_image img))]"
    using call_llm_snd [of W h "text" "read_image img"] c by simp
  show ?thesis
  proof (cases r)
    case (Inl e)
    with assms c h' show ?thesis by (simp add: triage_ml_def Let_def model_calls_def)
  next
    case (Inr result)
    have "filter is_model_call (snd (analyze_result_ml W C h' request_id user_language result))
            = filter is_model_call h'"
      using outbound_model_calls
      by (auto simp: analyze_result_ml_def Let_def split: sum.splits prod.splits)
         (metis snd_conv)
    with assms c h' Inr show ?thesis by (simp add: triage_ml_def Let_def model_calls_def)
  qed
qed

lemma triage_ml_statuses:
  assumes "found_urgent W urgent_keywords_ml text = []"
    and "fst (call_llm W h text (read_image img)) = Inr result"
  shows "(dict_has result (lit ''error'') \<longrightarrow>
            status_of (triage_ml W C h request_id user_language img text)
              = Some (PStr (lit ''ai_partial_failure'')) \<and>
            risk_of (triage_ml W C h request_id user_language img text)
              = Some (PStr (lit ''MODERATE''))) \<and>
         (\<not> dict_has result (lit ''error'') \<longrightarrow>
            (\<forall>r. py_upper W (dict_get result (lit ''risk'') (PStr (lit ''MODERATE''))) = Inr r \<longrightarrow>
               status_of (triage_ml W C h request_id user_language img text)
                 = Some (PStr (lit ''success'')) \<and>
               risk_of (triage_ml W C h request_id user_language img text) = Some (PStr r)))"
proof -
  obtain h' where c: "call_llm W h text (read_image img) = (Inr result, h')"
    using assms(2) by (cases "call_llm W h text (read_image img)") simp
  note t = triage_ml_after_llm [OF assms(1) c, of C request_id user_language]
  show ?thesis
    using analyze_result_ml_success [of result W _ C h' request_id user_language]
    by (auto simp: t) (simp_all add: analyze_result_ml_def status_of_def risk_of_def
        ai_partial_failure_ml_def)
qed

section \<open>The emergency short circuit\<close>

text \<open>
  Claim C1, as amended.  For every symptom text of trimmed length at least 5: in the
  single-language pipeline, when the lower-cased text contains a phrase of
  \<open>urgent_keywords\<close>, the response has risk \<open>HIGH\<close> and status
  \<open>emergency_detected\<close> and no provider is called at all; in the multi-language
  pipeline, with consent granted where required, when the lower-cased working text (the
  result of the inbound translation stage) contains a phrase of \<open>urgent_keywords_ml\<close>,
  the response has risk \<open>HIGH\<close> and status \<open>emergency_detected\<close> and the model
  is not called.  This holds for every world, so whatever the model would answer.  For an
  English request the working text is the symptom text.
\<close>

theorem urgent_phrase_short_circuits:
  assumes "5 \<le> length (strip W symptom_text)"
  shows "((\<exists>kw\<in>set urgent_keywords. py_in kw (lower W symptom_text)) \<longrightarrow>
            risk_of (analyze W request_id symptom_text img) = Some (PStr (lit ''HIGH'')) \<and>
            status_of (analyze W request_id symptom_text img) = Some (PStr (lit ''emergency_detected'')) \<and>
            snd (analyze W request_id symptom_text img) = []) \<and>
         ((CONSENT_REQUIRED \<longrightarrow> consent_given) \<longrightarrow>
            (\<forall>working h. inbound W C symptom_text user_language = (PStr working, h) \<longrightarrow>
               (\<exists>kw\<in>set urgent_keywords_ml. py_in kw (lower W working)) \<longrightarrow>
               risk_of (analyze_ml W C request_id symptom_text user_language img consent_given)
                 = Some (PStr (lit ''HIGH'')) \<and>
               status_of (analyze_ml W C request_id symptom_text user_language img consent_given)
                 = Some (PStr (lit ''emergency_detected'')) \<and>
               model_calls (analyze_ml W C request_id symptom_text user_language img consent_given) = [])) \<and>
         inbound W C symptom_text (lit ''English'') = (PStr symptom_text, [])"
proof (intro conjI impI allI)
  assume "\<exists>kw\<in>set urgent_keywords. py_in kw (lower W symptom_text)"
  then have f: "found_urgent W urgent_keywords symptom_text \<noteq> []"
    by (simp add: found_urgent_empty_iff)
  note a = analyze_emergency [OF assms f, of request_id img]
  show "risk_of (analyze W request_id symptom_text img) = Some (PStr (lit ''HIGH''))"
    by (simp add: a risk_of_def emergency_detected_def)
  show "status_of (analyze W request_id symptom_text img) = Some (PStr (lit ''emergency_detected''))"
    by (simp add: a status_of_def emergency_detected_def)
  show "snd (analyze W request_id symptom_text img) = []"
    by (simp add: a)
next
  fix working h
  assume c: "CONSENT_REQUIRED \<longrightarrow> consent_given"
    and i: "inbound W C symptom_text user_language = (PStr working, h)"
    and "\<exists>kw\<in>set urgent_keywords_ml. py_in kw (lower W working)"
  then have f: "found_urgent W urgent_keywords_ml working \<noteq> []"
    by (simp add: found_urgent_empty_iff)
  have h: "filter is_model_call h = []"
    using inbound_model_calls [of W C symptom_text user_language] i by simp
  note a = analyze_ml_working [OF c assms i, of request_id img]
  note t = triage_ml_emergency [OF f, of C h request_id user_language img]
  show "risk_of (analyze_ml W C request_id symptom_text user_language img consent_given)
          = Some (PStr (lit ''HIGH''))"
    using a t by simp
  show "status_of (analyze_ml W C request_id symptom_text user_language img consent_given)
          = Some (PStr (lit ''emergency_detected''))"
    using a t by simp
  show "model_calls (analyze_ml W C request_id symptom_text user_language img consent_given) = []"
    using a t h by simp
next
  show "inbound W C symptom_text (lit ''English'') = (PStr symptom_text, [])"
    by (rule inbound_english)
qed

section \<open>Failure of the inbound translation\<close>

text \<open>
  Claim C7, as amended.  For every request with consent granted where required, trimmed
  length at least 5 and a user language other than English whose inbound translation
  fails, the multi-language pipeline goes on with the symptom text as the working text:
  its outcome is the one of the later stages on that text.  The status is
  \<open>emergency_detected\<close> when the text contains an urgent phrase; otherwise the model is
  called once, with the symptom text, and the status is \<open>ai_partial_failure\<close> when
  \<open>call_llm\<close> returns an error outcome and \<open>success\<close> when it returns a result
  without an error whose risk is a string or absent.
\<close>

theorem translation_failure_falls_back:
  assumes "CONSENT_REQUIRED \<longrightarrow> consent_given"
    and "5 \<le> length (strip W symptom_text)"
    and "user_language \<noteq> lit ''English''"
    and "translation_failed (fst (translate_to_english W C [] (PStr symptom_text) user_language))"
  shows "analyze_ml W C request_id symptom_text user_language img consent_given
           = triage_ml W C (snd (translate_to_english W C [] (PStr symptom_text) user_language))
               request_id user_language img symptom_text \<and>
         (found_urgent W urgent_keywords_ml symptom_text \<noteq> [] \<longrightarrow>
            status_of (analyze_ml W C request_id symptom_text user_language img consent_given)
              = Some (PStr (lit ''emergency_detected''))) \<and>
         (found_urgent W urgent_keywords_ml symptom_text = [] \<longrightarrow>
            model_calls (analyze_ml W C request_id symptom_text user_language img consent_given)
              = [GenerateContent (llm_content W symptom_text (read_image img))] \<and>
            (\<forall>result.
               fst (call_llm W (snd (translate_to_english W C [] (PStr symptom_text) user_language))
                      symptom_text (read_image img)) = Inr result \<longrightarrow>
               (dict_has result (lit ''error'') \<longrightarrow>
                  status_of (analyze_ml W C request_id symptom_text user_language img consent_given)
                    = Some (PStr (lit ''ai_partial_failure''))) \<and>
               (\<not> dict_has result (lit ''error'') \<longrightarrow>
                  (\<forall>r. py_upper W (dict_get result (lit ''risk'') (PStr (lit ''MODERATE''))) = Inr r \<longrightarrow>
                     status_of (analyze_ml W C request_id symptom_text user_language img consent_given)
                       = Some (PStr (lit ''success''))))))"
proof -
  let ?h = "snd (translate_to_english W C [] (PStr symptom_text) user_language)"
  have i: "inbound W C symptom_text user_language = (PStr symptom_text, ?h)"
    by (rule inbound_failed [OF assms(3,4)])
  have a: "analyze_ml W C request_id symptom_text user_language img consent_given
             = triage_ml W C ?h request_id user_language img symptom_text"
    by (rule analyze_ml_working [OF assms(1,2) i])
  have m: "filter is_model_call ?h = []"
    using translate_to_english_model_calls [of W C "[]" "PStr symptom_text" user_language] by simp
  show ?thesis
  proof (intro conjI impI allI)
    show "analyze_ml W C request_id symptom_text user_language img consent_given
             = triage_ml W C ?h request_id user_language img symptom_text"
      by (rule a)
  next
    assume "found_urgent W urgent_keywords_ml symptom_text \<noteq> []"
    from triage_ml_emergency [OF this, of C ?h request_id user_language img]
    show "status_of (analyze_ml W C request_id symptom_text user_language img consent_given)
            = Some (PStr (lit ''emergency_detected''))"
      by (simp add: a)
  next
    assume f: "found_urgent W urgent_keywords_ml symptom_text = []"
    from triage_ml_model_calls [OF f, of C ?h request_id user_language img] m
    show "model_calls (analyze_ml W C request_id symptom_text user_language img consent_given)
            = [GenerateContent (llm_content W symptom_text (read_image img))]"
      by (simp add: a)
  next
    fix result
    assume f: "found_urgent W urgent_keywords_ml symptom_text = []"
      and c: "fst (call_llm W ?h symptom_text (read_image img)) = Inr result"
      and e: "dict_has result (lit ''error'')"
    from triage_ml_statuses [OF f c, of C request_id user_language] e
    show "status_of (analyze_ml W C request_id symptom_text user_language img consent_given)
            = Some (PStr (lit ''ai_partial_failure''))"
      by (simp add: a)
  next
    fix result r
    assume f: "found_urgent W urgent_keywords_ml symptom_text = []"
      and c: "fst (call_llm W ?h symptom_text (read_image img)) = Inr result"
      and e: "\<not> dict_has result (lit ''error'')"
      and u: "py_upper W (dict_get result (lit ''risk'') (PStr (lit ''MODERATE''))) = Inr r"
    from triage_ml_statuses [OF f c, of C request_id user_language] e u
    show "status_of (analyze_ml W C request_id symptom_text user_language img consent_given)
            = Some (PStr (lit ''success''))"
      by (simp add: a)
  qed
qed

section \<open>Runs of the multi-language pipeline\<close>

lemma hindi_not_english: "hindi \<noteq> lit ''English''"
  by (simp add: hindi_def lit_def)

lemma chest_pain_length: "length (strip W (lit ''Chest PAIN'')) = 10"
  by code_simp

lemma chest_pain_found: "py_in (lit ''chest pain'') (lower W (lit ''Chest PAIN''))"
  by code_simp

lemma mujhe_length: "length (strip W (lit ''mujhe chest pain hai'')) = 20"
  by code_simp

lemma mujhe_found: "py_in (lit ''chest pain'') (lower W (lit ''mujhe chest pain hai''))"
  by code_simp

lemma pain_in_my_chest_not_urgent:
  "found_urgent W urgent_keywords_ml (lit ''I have pain in my chest'') = []"
  by code_simp

lemma inbound_translated:
  assumes "user_language \<noteq> lit ''English''" "enabled C"
    and "\<And>url headers payload t. client_post W [] url headers payload t
           = Inr (Response 200 body (Inr (PDict d)))"
    and "map_of d (lit ''translated_text'') = Some (PStr english)"
  shows "fst (inbound W C symptom_text user_language) = PStr english"
  using assms
  by (simp add: inbound_def translate_to_english_def translate_def translate_response_def
        Let_def dict_get_def)

lemma translate_503_failed:
  "translation_failed
     (fst (translate_to_english (stub_world loads (post_status 503) gen) with_key []
             (PStr symptom_text) hindi))"
  by (simp add: translation_failed_def translate_to_english_def hindi_not_english translate_def
        enabled_def with_key_def stub_world_def post_status_def translate_response_def Let_def
        dict_get_def)

text \<open>
  The emergency short circuit at the text \<open>Chest PAIN\<close>, with a model that is not
  available.
\<close>

theorem urgent_phrase_short_circuits_witness:
  "risk_of (analyze (stub_world no_json post_echo no_model) (lit ''r1'') (lit ''Chest PAIN'') None)
     = Some (PStr (lit ''HIGH'')) \<and>
   status_of (analyze (stub_world no_json post_echo no_model) (lit ''r1'') (lit ''Chest PAIN'') None)
     = Some (PStr (lit ''emergency_detected'')) \<and>
   snd (analyze (stub_world no_json post_echo no_model) (lit ''r1'') (lit ''Chest PAIN'') None) = [] \<and>
   risk_of (analyze_ml (stub_world no_json post_echo no_model) with_key (lit ''r1'') (lit ''Chest PAIN'')
              (lit ''English'') None True) = Some (PStr (lit ''HIGH'')) \<and>
   status_of (analyze_ml (stub_world no_json post_echo no_model) with_key (lit ''r1'') (lit ''Chest PAIN'')
              (lit ''English'') None True) = Some (PStr (lit ''emergency_detected'')) \<and>
   model_calls (analyze_ml (stub_world no_json post_echo no_model) with_key (lit ''r1'') (lit ''Chest PAIN'')
              (lit ''English'') None True) = []"
proof -
  let ?W = "stub_world no_json post_echo no_model"
  have l: "5 \<le> length (strip ?W (lit ''Chest PAIN''))"
    by (simp add: chest_pain_length)
  have k: "\<exists>kw\<in>set urgent_keywords. py_in kw (lower ?W (lit ''Chest PAIN''))"
    using chest_pain_found [of ?W] by (simp add: urgent_keywords_def)
  have k': "\<exists>kw\<in>set urgent_keywords_ml. py_in kw (lower ?W (lit ''Chest PAIN''))"
    using chest_pain_found [of ?W] by (simp add: urgent_keywords_ml_def)
  show ?thesis
    using urgent_phrase_short_circuits [OF l, of "lit ''r1''" None True with_key "lit ''English''"] k k'
    by simp
qed

text \<open>
  Claim C1 as stated fails in the multi-language pipeline.  The request is in Hindi with
  the text \<open>mujhe chest pain hai\<close>, which contains the phrase \<open>chest pain\<close>; the
  translation provider answers \<open>I have pain in my chest\<close>, which contains no phrase of
  the list; the scan runs on the translation, the model is called and the response is
  the model's \<open>LOW\<close> with status \<open>success\<close>.
\<close>

theorem urgent_phrase_lost_in_translation_counterexample:
  "5 \<le> length (strip (stub_world (loads_as low_risk) (post_json chest_translation) (model_says (lit ''{}'')))
           (lit ''mujhe chest pain hai'')) \<and>
   lit ''chest pain'' \<in> set urgent_keywords_ml \<and>
   py_in (lit ''chest pain'')
     (lower (stub_world (loads_as low_risk) (post_json chest_translation) (model_says (lit ''{}'')))
        (lit ''mujhe chest pain hai'')) \<and>
   risk_of (analyze_ml (stub_world (loads_as low_risk) (post_json chest_translation) (model_says (lit ''{}'')))
              with_key (lit ''r1'') (lit ''mujhe chest pain hai'') hindi None True)
     = Some (PStr (lit ''LOW'')) \<and>
   status_of (analyze_ml (stub_world (loads_as low_risk) (post_json chest_translation) (model_says (lit ''{}'')))
              with_key (lit ''r1'') (lit ''mujhe chest pain hai'') hindi None True)
     = Some (PStr (lit ''success'')) \<and>
   model_calls (analyze_ml (stub_world (loads_as low_risk) (post_json chest_translation) (model_says (lit ''{}'')))
              with_key (lit ''r1'') (lit ''mujhe chest pain hai'') hindi None True)
     = [GenerateContent
          (llm_content (stub_world (loads_as low_risk) (post_json chest_translation) (model_says (lit ''{}'')))
             (lit ''I have pain in my chest'') None)]"
proof -
  let ?W = "stub_world (loads_as low_risk) (post_json chest_translation) (model_says (lit ''{}''))"
  let ?d = "[(lit ''risk'', PStr (lit ''LOW'')), (lit ''doctor_summary'', PStr (lit ''Fever'')),
             (lit ''advice'', PStr (lit ''Rest''))]"
  have "fst (inbound ?W with_key (lit ''mujhe chest pain hai'') hindi) = PStr (lit ''I have pain in my chest'')"
    by (rule inbound_translated [where body = "[]"
          and d = "[(lit ''translated_text'', PStr (lit ''I have pain in my chest''))]"])
       (simp_all add: hindi_not_english enabled_def with_key_def stub_world_def post_json_def
          chest_translation_def)
  then obtain h where i: "inbound ?W with_key (lit ''mujhe chest pain hai'') hindi
      = (PStr (lit ''I have pain in my chest''), h)"
    by (cases "inbound ?W with_key (lit ''mujhe chest pain hai'') hindi") simp
  have hm: "filter is_model_call h = []"
    using inbound_model_calls [of ?W with_key "lit ''mujhe chest pain hai''" hindi] i by simp
  have a: "analyze_ml ?W with_key (lit ''r1'') (lit ''mujhe chest pain hai'') hindi None True
      = triage_ml ?W with_key h (lit ''r1'') hindi None (lit ''I have pain in my chest'')"
    by (rule analyze_ml_working [OF _ _ i]) (simp_all add: mujhe_length)
  have llm: "fst (call_llm ?W h (lit ''I have pain in my chest'') (read_image None)) = Inr ?d"
    by (simp add: call_llm_fst stub_world_def model_says_def loads_as_def low_risk_def)
  have noerr: "\<not> dict_has ?d (lit ''error'')"
    by (simp add: dict_has_def)
  have up: "py_upper ?W (dict_get ?d (lit ''risk'') (PStr (lit ''MODERATE''))) = Inr (lit ''LOW'')"
    by (simp add: dict_get_def upper_LOW)
  note s = triage_ml_statuses [OF pain_in_my_chest_not_urgent llm, of with_key "lit ''r1''" hindi]
  note m = triage_ml_model_calls [OF pain_in_my_chest_not_urgent, of ?W with_key h "lit ''r1''" hindi None]
  have r: "read_image None = None" by (simp add: read_image_def)
  show ?thesis
    using s noerr up m hm
    by (simp add: a mujhe_length mujhe_found urgent_keywords_ml_def r)
qed

text \<open>
  A failed inbound translation (status 503) followed by a model that answers: the
  pipeline runs on the symptom text and ends with status \<open>success\<close>.
\<close>

theorem translation_failure_falls_back_witness:
  "analyze_ml (stub_world (loads_as low_risk) (post_status 503) (model_says (lit ''{}''))) with_key
       (lit ''r1'') (lit ''mild fever'') hindi None True
     = triage_ml (stub_world (loads_as low_risk) (post_status 503) (model_says (lit ''{}''))) with_key
         (snd (translate_to_english
                 (stub_world (loads_as low_risk) (post_status 503) (model_says (lit ''{}'')))
                 with_key [] (PStr (lit ''mild fever'')) hindi))
         (lit ''r1'') hindi None (lit ''mild fever'') \<and>
   status_of (analyze_ml (stub_world (loads_as low_risk) (post_status 503) (model_says (lit ''{}'')))
                with_key (lit ''r1'') (lit ''mild fever'') hindi None True)
     = Some (PStr (lit ''success'')) \<and>
   model_calls (analyze_ml (stub_world (loads_as low_risk) (post_status 503) (model_says (lit ''{}'')))
                with_key (lit ''r1'') (lit ''mild fever'') hindi None True)
     = [GenerateContent
          (llm_content (stub_world (loads_as low_risk) (post_status 503) (model_says (lit ''{}'')))
             (lit ''mild fever'') None)]"
proof -
  let ?W = "stub_world (loads_as low_risk) (post_status 503) (model_says (lit ''{}''))"
  let ?h = "snd (translate_to_english ?W with_key [] (PStr (lit ''mild fever'')) hindi)"
  let ?d = "[(lit ''risk'', PStr (lit ''LOW'')), (lit ''doctor_summary'', PStr (lit ''Fever'')),
             (lit ''advice'', PStr (lit ''Rest''))]"
  have l: "5 \<le> length (strip ?W (lit ''mild fever''))"
    by (simp add: mild_fever_length)
  have c: "CONSENT_REQUIRED \<longrightarrow> True" by simp
  have llm: "fst (call_llm ?W ?h (lit ''mild fever'') (read_image None)) = Inr ?d"
    by (simp add: call_llm_fst stub_world_def model_says_def loads_as_def low_risk_def)
  have noerr: "\<not> dict_has ?d (lit ''error'')"
    by (simp add: dict_has_def)
  have up: "py_upper ?W (dict_get ?d (lit ''risk'') (PStr (lit ''MODERATE''))) = Inr (lit ''LOW'')"
    by (simp add: dict_get_def upper_LOW)
  have r: "read_image None = None" by (simp add: read_image_def)
  note T = translation_failure_falls_back [OF c l hindi_not_english translate_503_failed,
        of "lit ''r1''" None]
  have rest: "status_of (analyze_ml ?W with_key (lit ''r1'') (lit ''mild fever'') hindi None True)
        = Some (PStr (lit ''success'')) \<and>
      model_calls (analyze_ml ?W with_key (lit ''r1'') (lit ''mild fever'') hindi None True)
        = [GenerateContent (llm_content ?W (lit ''mild fever'') None)]"
    using T [THEN conjunct2] llm noerr up mild_fever_not_urgent_ml [of ?W]
    by (simp add: r)
  show ?thesis
    using T [THEN conjunct1] rest by (rule conjI)
qed

text \<open>
  Claim C7 as stated fails when the model fails as well: after the failed translation the
  pipeline goes on, \<open>call_llm\<close> returns an error outcome, and the status is
  \<open>ai_partial_failure\<close>, neither \<open>success\<close> nor \<open>emergency_detected\<close>.
\<close>

theorem translation_failure_then_model_failure_counterexample:
  "hindi \<noteq> lit ''English'' \<and>
   5 \<le> length (strip (stub_world no_json (post_status 503) no_model) (lit ''mild fever'')) \<and>
   translation_failed
     (fst (translate_to_english (stub_world no_json (post_status 503) no_model) with_key []
             (PStr (lit ''mild fever'')) hindi)) \<and>
   status_of (analyze_ml (stub_world no_json (post_status 503) no_model) with_key (lit ''r1'')
                (lit ''mild fever'') hindi None True)
     = Some (PStr (lit ''ai_partial_failure'')) \<and>
   risk_of (analyze_ml (stub_world no_json (post_status 503) no_model) with_key (lit ''r1'')
                (lit ''mild fever'') hindi None True)
     = Some (PStr (lit ''MODERATE''))"
proof -
  let ?W = "stub_world no_json (post_status 503) no_model"
  let ?h = "snd (translate_to_english ?W with_key [] (PStr (lit ''mild fever'')) hindi)"
  let ?d = "[(lit ''error'', PStr (lit ''Failed to fetch the details'')),
             (lit ''raw_error'', PStr (lit ''503'')),
             (lit ''exception_type'', PStr (lit ''ServiceUnavailable''))]"
  have i: "inbound ?W with_key (lit ''mild fever'') hindi = (PStr (lit ''mild fever''), ?h)"
    by (rule inbound_failed [OF hindi_not_english translate_503_failed])
  have a: "analyze_ml ?W with_key (lit ''r1'') (lit ''mild fever'') hindi None True
      = triage_ml ?W with_key ?h (lit ''r1'') hindi None (lit ''mild fever'')"
    by (rule analyze_ml_working [OF _ _ i]) (simp_all add: mild_fever_length)
  have llm: "fst (call_llm ?W ?h (lit ''mild fever'') (read_image None)) = Inr ?d"
    by (simp add: call_llm_fst stub_world_def no_model_def llm_except_def)
  have err: "dict_has ?d (lit ''error'')"
    by (simp add: dict_has_def)
  note s = triage_ml_statuses [OF mild_fever_not_urgent_ml llm, of with_key "lit ''r1''" hindi]
  show ?thesis
    using s err translate_503_failed [of no_json no_model "lit ''mild fever''"]
    by (simp add: a hindi_not_english mild_fever_length)
qed

section \<open>The two pipelines side by side\<close>

lemma is_sized_len: "is_sized v \<Longrightarrow> \<exists>n. py_len v = Inr n"
  by (cases v) simp_all

lemma inbound_echo:
  assumes "echo_translation W"
  shows "fst (inbound W C symptom_text user_language) = PStr symptom_text"
proof (cases "user_language = lit ''English''")
  case True
  then show ?thesis by (simp add: inbound_def)
next
  case False
  show ?thesis
  proof (cases "enabled C")
    case e: False
    with False show ?thesis
      by (simp add: inbound_def translate_to_english_def translate_def dict_get_def)
  next
    case e: True
    obtain body d where
      p: "client_post W [] SARVAM_API_URL (translate_headers C)
            (translate_payload (PStr symptom_text) (get_language_code user_language) (lit ''en-IN'')) 30
          = Inr (Response 200 body (Inr (PDict d)))"
      and t: "map_of d (lit ''translated_text'') = Some (PStr symptom_text)"
      using assms unfolding echo_translation_def by blast
    from False e p t show ?thesis
      by (simp add: inbound_def translate_to_english_def translate_def translate_response_def
            Let_def dict_get_def)
  qed
qed

lemma found_urgent_ml_eq:
  assumes "\<not> py_in (lit ''suicide'') (lower W text)" "\<not> py_in (lit ''overdose'') (lower W text)"
  shows "found_urgent W urgent_keywords_ml text = found_urgent W urgent_keywords text"
  using assms by (simp add: found_urgent_def urgent_keywords_def urgent_keywords_ml_def Let_def)

lemma call_llm_same_model:
  assumes "same_model W"
  shows "fst (call_llm W h symptom_text image_bytes) = fst (call_llm W [] symptom_text image_bytes)"
proof -
  have "generate_content W h (llm_content W symptom_text image_bytes)
          = generate_content W [] (llm_content W symptom_text image_bytes)"
    using assms unfolding same_model_def by blast
  then show ?thesis by (simp only: call_llm_fst)
qed

lemma triage_ml_model_raises:
  assumes "found_urgent W urgent_keywords_ml text = []"
    and "fst (call_llm W h text (read_image img)) = Inl e"
  shows "risk_of (triage_ml W C h request_id user_language img text) = Some (PStr (lit ''ERROR'')) \<and>
         status_of (triage_ml W C h request_id user_language img text) = Some (PStr (lit ''ai_error''))"
  using assms
  by (cases "call_llm W h text (read_image img)")
     (simp add: triage_ml_def Let_def risk_of_def status_of_def ai_error_ml_def)

lemma analyze_model_raises:
  assumes "5 \<le> length (strip W symptom_text)"
    and "found_urgent W urgent_keywords symptom_text = []"
    and "fst (call_llm W [] symptom_text (read_image img)) = Inl e"
  shows "risk_of (analyze W request_id symptom_text img) = Some (PStr (lit ''ERROR'')) \<and>
         status_of (analyze W request_id symptom_text img) = Some (PStr (lit ''ai_error''))"
  using assms
  by (cases "call_llm W [] symptom_text (read_image img)")
     (simp add: analyze_def Let_def risk_of_def status_of_def ai_error_def)

lemma analyze_result_error:
  assumes "dict_has result (lit ''error'')"
  shows "analyze_result W request_id symptom_text img image_bytes result
           = Inr (ai_partial_failure W result request_id)"
  using assms by (simp add: analyze_result_def)

text \<open>
  Claim C5, as amended.  For every symptom text and the same optional image, with a
  translation provider that hands the input text back, a model that answers by the
  content it is sent, and consent granted where required: when the text contains neither
  \<open>suicide\<close> nor \<open>overdose\<close> (the two phrases only the multi-language list has) and
  the answer of the model, when it is no error outcome, is usable, both pipelines return
  a response and the two responses carry the same risk.
\<close>

theorem pipelines_agree_on_risk:
  assumes echo: "echo_translation W" and same: "same_model W"
    and consent: "CONSENT_REQUIRED \<longrightarrow> consent_given"
    and s: "\<not> py_in (lit ''suicide'') (lower W symptom_text)"
    and od: "\<not> py_in (lit ''overdose'') (lower W symptom_text)"
    and ok: "\<forall>result. fst (call_llm W [] symptom_text (read_image img)) = Inr result \<longrightarrow>
               \<not> dict_has result (lit ''error'') \<longrightarrow> usable W result"
  shows "\<exists>risk.
           risk_of (analyze_ml W C request_id_ml symptom_text user_language img consent_given)
             = Some (PStr risk) \<and>
           risk_of (analyze W request_id symptom_text img) = Some (PStr risk)"
proof (cases "length (strip W symptom_text) < 5")
  case True
  with consent show ?thesis
    by (auto simp: analyze_def analyze_ml_def incomplete_input_def risk_of_def)
next
  case False
  then have len: "5 \<le> length (strip W symptom_text)" by simp
  obtain h where i: "inbound W C symptom_text user_language = (PStr symptom_text, h)"
    using inbound_echo [OF echo, of C symptom_text user_language]
    by (cases "inbound W C symptom_text user_language") simp
  have a: "analyze_ml W C request_id_ml symptom_text user_language img consent_given
             = triage_ml W C h request_id_ml user_language img symptom_text"
    by (rule analyze_ml_working [OF consent len i])
  have f: "found_urgent W urgent_keywords_ml symptom_text = found_urgent W urgent_keywords symptom_text"
    by (rule found_urgent_ml_eq [OF s od])
  have c: "fst (call_llm W h symptom_text (read_image img))
             = fst (call_llm W [] symptom_text (read_image img))"
    by (rule call_llm_same_model [OF same])
  show ?thesis
  proof (cases "found_urgent W urgent_keywords symptom_text = []")
    case urgent: False
    have "risk_of (analyze W request_id symptom_text img) = Some (PStr (lit ''HIGH''))"
      by (simp add: analyze_emergency [OF len urgent] risk_of_def emergency_detected_def)
    moreover have "risk_of (triage_ml W C h request_id_ml user_language img symptom_text)
                     = Some (PStr (lit ''HIGH''))"
      using triage_ml_emergency [of W symptom_text C h request_id_ml user_language img] urgent f
      by simp
    ultimately show ?thesis by (simp add: a)
  next
    case calm: True
    then have calm_ml: "found_urgent W urgent_keywords_ml symptom_text = []" by (simp add: f)
    show ?thesis
    proof (cases "fst (call_llm W [] symptom_text (read_image img))")
      case (Inl e)
      from analyze_model_raises [OF len calm Inl, of request_id]
        triage_ml_model_raises [OF calm_ml, of h img e C request_id_ml user_language] c Inl
      show ?thesis by (simp add: a)
    next
      case (Inr result)
      note single = analyze_after_llm [OF len calm Inr, of request_id]
      note multi = triage_ml_statuses [OF calm_ml, of h img result C request_id_ml user_language]
      show ?thesis
      proof (cases "dict_has result (lit ''error'')")
        case True
        have "risk_of (analyze W request_id symptom_text img) = Some (PStr (lit ''MODERATE''))"
          using single analyze_result_error [OF True, of W request_id symptom_text img "read_image img"]
          by (simp add: risk_of_def ai_partial_failure_def)
        with multi c Inr True show ?thesis by (simp add: a)
      next
        case False
        with ok Inr have u: "usable W result" by blast
        then obtain r where r: "dict_get result (lit ''risk'') (PStr (lit ''MODERATE'')) = PStr r"
          and v: "upper W r \<in> set valid_risks"
          by (auto simp: usable_def split: pyval.splits)
        from u obtain n m where
          n: "py_len (dict_get result (lit ''doctor_summary'') (PStr (lit ''No detailed summary available''))) = Inr n"
          and m: "py_len (dict_get result (lit ''advice'') (PStr (lit ''Please consult a medical professional.''))) = Inr m"
          using is_sized_len unfolding usable_def by blast
        have up: "py_upper W (dict_get result (lit ''risk'') (PStr (lit ''MODERATE''))) = Inr (upper W r)"
          by (simp add: r)
        from analyze_result_success [OF False up n m, of request_id symptom_text img "read_image img"] v
        have "risk_of (analyze W request_id symptom_text img) = Some (PStr (upper W r))"
          using single by (auto simp: risk_of_def)
        moreover have "risk_of (triage_ml W C h request_id_ml user_language img symptom_text)
                         = Some (PStr (upper W r))"
          using multi c Inr False up by simp
        ultimately show ?thesis by (simp add: a)
      qed
    qed
  qed
qed

subsection \<open>Runs of both pipelines\<close>

lemma post_echo_echoes: "echo_translation (stub_world loads post_echo gen)"
  by (simp add: echo_translation_def stub_world_def post_echo_def translate_payload_def dict_get_def)

lemma model_says_same: "same_model (stub_world loads post (model_says t))"
  by (simp add: same_model_def stub_world_def model_says_def)

lemma mild_fever_no_suicide: "\<not> py_in (lit ''suicide'') (lower W (lit ''mild fever''))"
  by code_simp

lemma mild_fever_no_overdose: "\<not> py_in (lit ''overdose'') (lower W (lit ''mild fever''))"
  by code_simp

lemma pill_overdose_length: "length (strip W (lit ''pill overdose'')) = 13"
  by code_simp

lemma pill_overdose_not_urgent: "found_urgent W urgent_keywords (lit ''pill overdose'') = []"
  by code_simp

lemma pill_overdose_urgent_ml: "found_urgent W urgent_keywords_ml (lit ''pill overdose'') \<noteq> []"
  by code_simp

lemma low_risk_answer:
  "fst (call_llm (stub_world (loads_as low_risk) post (model_says (lit ''{}''))) h symptom_text None)
     = Inr [(lit ''risk'', PStr (lit ''LOW'')), (lit ''doctor_summary'', PStr (lit ''Fever'')),
            (lit ''advice'', PStr (lit ''Rest''))]"
  by (simp add: call_llm_fst stub_world_def model_says_def loads_as_def low_risk_def)

lemma low_risk_usable:
  "usable W [(lit ''risk'', PStr (lit ''LOW'')), (lit ''doctor_summary'', PStr (lit ''Fever'')),
             (lit ''advice'', PStr (lit ''Rest''))]"
  by (simp add: usable_def dict_get_def upper_LOW valid_risks_def)

theorem pipelines_agree_on_risk_witness:
  "\<exists>risk.
     risk_of (analyze_ml (stub_world (loads_as low_risk) post_echo (model_says (lit ''{}''))) with_key
                (lit ''r2'') (lit ''mild fever'') hindi None True) = Some (PStr risk) \<and>
     risk_of (analyze (stub_world (loads_as low_risk) post_echo (model_says (lit ''{}''))) (lit ''r1'')
                (lit ''mild fever'') None) = Some (PStr risk)"
proof -
  let ?W = "stub_world (loads_as low_risk) post_echo (model_says (lit ''{}''))"
  have c: "CONSENT_REQUIRED \<longrightarrow> True" by simp
  have r: "read_image None = None" by (simp add: read_image_def)
  have ok: "\<forall>result. fst (call_llm ?W [] (lit ''mild fever'') (read_image None)) = Inr result \<longrightarrow>
               \<not> dict_has result (lit ''error'') \<longrightarrow> usable ?W result"
    using low_risk_usable [of ?W] by (simp add: r low_risk_answer)
  show ?thesis
    by (rule pipelines_agree_on_risk [OF post_echo_echoes model_says_same c
          mild_fever_no_suicide mild_fever_no_overdose ok])
qed

text \<open>
  Claim C5 as stated fails.  With the echoing translation provider, consent given, and a
  model that answers \<open>LOW\<close>, the text \<open>pill overdose\<close> gets the model's \<open>LOW\<close> from
  the single-language pipeline, whose list has no \<open>overdose\<close>, and \<open>HIGH\<close> from the
  multi-language pipeline.
\<close>

theorem extra_keyword_counterexample:
  "echo_translation (stub_world (loads_as low_risk) post_echo (model_says (lit ''{}''))) \<and>
   risk_of (analyze (stub_world (loads_as low_risk) post_echo (model_says (lit ''{}''))) (lit ''r1'')
              (lit ''pill overdose'') None) = Some (PStr (lit ''LOW'')) \<and>
   risk_of (analyze_ml (stub_world (loads_as low_risk) post_echo (model_says (lit ''{}''))) with_key
              (lit ''r2'') (lit ''pill overdose'') hindi None True) = Some (PStr (lit ''HIGH''))"
proof -
  let ?W = "stub_world (loads_as low_risk) post_echo (model_says (lit ''{}''))"
  let ?d = "[(lit ''risk'', PStr (lit ''LOW'')), (lit ''doctor_summary'', PStr (lit ''Fever'')),
             (lit ''advice'', PStr (lit ''Rest''))]"
  have r: "read_image None = None" by (simp add: read_image_def)
  have len: "5 \<le> length (strip ?W (lit ''pill overdose''))"
    by (simp add: pill_overdose_length)
  have llm: "fst (call_llm ?W [] (lit ''pill overdose'') (read_image None)) = Inr ?d"
    by (simp add: r low_risk_answer)
  have noerr: "\<not> dict_has ?d (lit ''error'')"
    by (simp add: dict_has_def)
  have up: "py_upper ?W (dict_get ?d (lit ''risk'') (PStr (lit ''MODERATE''))) = Inr (lit ''LOW'')"
    by (simp add: dict_get_def upper_LOW)
  have "\<exists>response. analyze_result ?W (lit ''r1'') (lit ''pill overdose'') None (read_image None) ?d
           = Inr response \<and>
         map_of response (lit ''risk'')
           = Some (PStr (if lit ''LOW'' \<in> set valid_risks then lit ''LOW'' else lit ''MODERATE''))
         \<and> map_of response (lit ''status'') = Some (PStr (lit ''success''))"
    by (rule analyze_result_success [OF noerr up]) (simp_all add: dict_get_def)
  then have single: "risk_of (analyze ?W (lit ''r1'') (lit ''pill overdose'') None) = Some (PStr (lit ''LOW''))"
    using analyze_after_llm [OF len pill_overdose_not_urgent llm, of "lit ''r1''"]
    by (auto simp: risk_of_def valid_risks_def)
  obtain h where i: "inbound ?W with_key (lit ''pill overdose'') hindi = (PStr (lit ''pill overdose''), h)"
    using inbound_echo [OF post_echo_echoes, of "loads_as low_risk" "model_says (lit ''{}'')"
        with_key "lit ''pill overdose''" hindi]
    by (cases "inbound ?W with_key (lit ''pill overdose'') hindi") simp
  have a: "analyze_ml ?W with_key (lit ''r2'') (lit ''pill overdose'') hindi None True
      = triage_ml ?W with_key h (lit ''r2'') hindi None (lit ''pill overdose'')"
    by (rule analyze_ml_working [OF _ len i]) simp
  have multi: "risk_of (analyze_ml ?W with_key (lit ''r2'') (lit ''pill overdose'') hindi None True)
      = Some (PStr (lit ''HIGH''))"
    using triage_ml_emergency [OF pill_overdose_urgent_ml, of ?W with_key h "lit ''r2''" hindi None]
    by (simp add: a)
  show ?thesis using post_echo_echoes single multi by simp
qed

end
